theory Spec2Isabelle
  imports Complex_Main
begin

section \<open>Python values and failures\<close>

text \<open>
  The script \<^verbatim>\<open>main-resnet.py\<close> is embedded function by function. A Python exception is
  a value of \<open>py_error\<close>, and a function that can raise returns \<open>py_error + 'a\<close>
  (\<open>Inl\<close> the exception). A floating-point number is the \<open>real\<close> it stands for; where
  the rounding of a product decides an integer result (the stage widths of the network),
  the product is rounded as the double-precision product is.
\<close>

datatype py_error =
    KeyError | TypeError | IndexError | ValueError
  | ZeroDivisionError | AssertionError | NameError
  | OverflowError | RuntimeError

definition bind_err :: "py_error + 'a \<Rightarrow> ('a \<Rightarrow> py_error + 'b) \<Rightarrow> py_error + 'b" where
  "bind_err r f = (case r of Inl e \<Rightarrow> Inl e | Inr v \<Rightarrow> f v)"

text \<open>\<^verbatim>\<open>xs[i]\<close> on a Python list: negative positions count from the end.\<close>

definition py_index :: "'a list \<Rightarrow> int \<Rightarrow> py_error + 'a" where
  "py_index xs i =
     (if 0 \<le> i \<and> i < int (length xs) then Inr (xs ! nat i)
      else if i < 0 \<and> - int (length xs) \<le> i then Inr (xs ! nat (int (length xs) + i))
      else Inl IndexError)"

text \<open>\<^verbatim>\<open>int(x)\<close> on a float truncates towards zero.\<close>

definition py_int :: "real \<Rightarrow> int" where
  "py_int r = (if 0 \<le> r then \<lfloor>r\<rfloor> else \<lceil>r\<rceil>)"

text \<open>
  An object that the script subscripts with a string key: a dict, or a list (on which a
  string subscript is a \<^verbatim>\<open>TypeError\<close>).
\<close>

datatype 'v py_obj = PyDict "string \<Rightarrow> 'v option" | PyList "'v list"

fun subscript_str :: "'v py_obj \<Rightarrow> string \<Rightarrow> py_error + 'v" where
  "subscript_str (PyDict m) k = (case m k of None \<Rightarrow> Inl KeyError | Some v \<Rightarrow> Inr v)"
| "subscript_str (PyList xs) k = Inl TypeError"

section \<open>The dataset adapter: \<^verbatim>\<open>CNNDataset\<close>\<close>

record 'v CNNDataset =
  data :: "int \<Rightarrow> 'v py_obj option"
  patient_ids :: "int list"

definition CNNDataset_init :: "(int \<Rightarrow> 'v py_obj option) \<Rightarrow> int list \<Rightarrow> 'v CNNDataset" where
  "CNNDataset_init d ids = \<lparr>data = d, patient_ids = ids\<rparr>"

definition CNNDataset_len :: "'v CNNDataset \<Rightarrow> nat" where
  "CNNDataset_len self = length (patient_ids self)"

text \<open>\<^verbatim>\<open>self.data[self.patient_ids[idx]][key]\<close>\<close>

definition CNNDataset_field :: "'v CNNDataset \<Rightarrow> int \<Rightarrow> string \<Rightarrow> py_error + 'v" where
  "CNNDataset_field self idx key =
     bind_err (py_index (patient_ids self) idx) (\<lambda>pid.
       case data self pid of
         None \<Rightarrow> Inl KeyError
       | Some entry \<Rightarrow> subscript_str entry key)"

definition CNNDataset_getitem :: "'v CNNDataset \<Rightarrow> int \<Rightarrow> py_error + ('v \<times> 'v)" where
  "CNNDataset_getitem self idx =
     bind_err (CNNDataset_field self idx ''input'') (\<lambda>inp.
     bind_err (CNNDataset_field self idx ''label'') (\<lambda>lab.
       Inr (inp, lab)))"

section \<open>Label derivation: \<^verbatim>\<open>create_label\<close> and \<^verbatim>\<open>process_excel\<close>\<close>

text \<open>
  A spreadsheet cell is \<open>Some r\<close> for a number and \<open>None\<close> for a missing value (NaN);
  \<^verbatim>\<open>NaN == 1\<close> is false, as \<open>None = Some 1\<close> is. The label is \<open>None\<close> for Python's
  \<^verbatim>\<open>None\<close>.
\<close>

definition create_label :: "real option \<Rightarrow> real option \<Rightarrow> int option" where
  "create_label mutation fusion =
     (if mutation = Some 1 then Some 1
      else if fusion = Some 1 then Some 0
      else None)"

text \<open>
  A row of the sheet: the patient code, the two indicator columns
  (\<^verbatim>\<open>BRAF V600E final\<close>, \<^verbatim>\<open>BRAF fusion final\<close>) and the remaining feature columns.
\<close>

record row =
  code :: "real option"
  braf_v600e :: "real option"
  braf_fusion :: "real option"
  features :: "real list"

text \<open>
  The first two row filters of \<^verbatim>\<open>process_excel\<close>: rows whose code is NaN go, then rows
  whose code is excluded go. A boolean-mask selection of the data frame is a \<open>filter\<close>
  on the row list.
\<close>

definition kept_rows :: "row list \<Rightarrow> real list \<Rightarrow> row list" where
  "kept_rows df_data exclusions =
     filter (\<lambda>r. the (code r) \<notin> set exclusions) (filter (\<lambda>r. code r \<noteq> None) df_data)"

text \<open>The value of the column \<^verbatim>\<open>label\<close> in a row: the lambda passed to \<^verbatim>\<open>apply\<close>.\<close>

definition row_label :: "row \<Rightarrow> int option" where
  "row_label r = create_label (braf_v600e r) (braf_fusion r)"

text \<open>
  The label column is then tested with \<^verbatim>\<open>np.isnan\<close>. When at least one kept row has a
  label, the column is numeric, \<^verbatim>\<open>None\<close> has become NaN, and the rows without a label
  are filtered out. When there are kept rows and none has a label, the column holds
  \<^verbatim>\<open>None\<close> objects only and \<^verbatim>\<open>np.isnan\<close> raises \<^verbatim>\<open>TypeError\<close>. When no row is kept
  at all, what \<^verbatim>\<open>apply\<close> returns for the empty table depends on the version of the
  data-frame library (an empty numeric column, or a table that cannot be assigned to
  one column): that outcome is the parameter \<open>on_empty\<close>, \<open>None\<close> for no error.

  \<^verbatim>\<open>dict(zip(patient_codes, labels))\<close> and the feature dictionary are filled row by row:
  a later row with the same code overwrites an earlier one.
\<close>

definition process_excel ::
  "py_error option \<Rightarrow> row list \<Rightarrow> real list \<Rightarrow>
   py_error + ((real \<Rightarrow> real list option) \<times> (int \<Rightarrow> int option))" where
  "process_excel on_empty df_data exclusions =
     (let kept = kept_rows df_data exclusions;
          with_label = map (\<lambda>r. (r, row_label r)) kept
      in if kept = [] then
           (case on_empty of Some e \<Rightarrow> Inl e | None \<Rightarrow> Inr (\<lambda>_. None, \<lambda>_. None))
         else if list_all (\<lambda>(r, l). l = None) with_label then Inl TypeError
         else
           (let rows = filter (\<lambda>(r, l). l \<noteq> None) with_label;
                training_labels =
                  foldl (\<lambda>m (r, l). m(py_int (the (code r)) := l)) (\<lambda>_. None) rows;
                radiomic_features =
                  foldl (\<lambda>m (r, l). m(the (code r) \<mapsto> features r)) (\<lambda>_. None) rows
            in Inr (radiomic_features, training_labels)))"

section \<open>Double-precision products\<close>

text \<open>
  The stage widths are \<^verbatim>\<open>int(x * widen_factor)\<close>, the integer part of a product of
  doubles, which is rounded to the nearest double before \<^verbatim>\<open>int\<close> truncates it.
  \<open>to_double r\<close> is the double nearest to the real \<open>r\<close> (53 significant bits, ties to
  the even significand, gradual underflow below exponent \<open>- 1022\<close>), or \<open>None\<close> when
  that is an infinity.
\<close>

fun ilog2 :: "nat \<Rightarrow> nat" where
  "ilog2 n = (if n < 2 then 0 else Suc (ilog2 (n div 2)))"

declare ilog2.simps [simp del]

text \<open>
  \<open>ilog2 n\<close> is the integer part of the binary logarithm of \<open>n \<ge> 1\<close>, and \<open>binade r\<close>
  the exponent \<open>e\<close> for which \<open>\<bar>r\<bar>\<close> lies from \<open>2\<close> to the \<open>e\<close> up to, and not
  reaching, \<open>2\<close> to the \<open>e + 1\<close> (for \<open>r \<noteq> 0\<close>).
\<close>

definition binade :: "real \<Rightarrow> int" where
  "binade r =
     (if 1 \<le> \<bar>r\<bar> then int (ilog2 (nat \<lfloor>\<bar>r\<bar>\<rfloor>))
      else - int (Suc (ilog2 (nat (\<lceil>1 / \<bar>r\<bar>\<rceil> - 1)))))"

text \<open>The distance of neighbouring doubles with exponent \<open>e\<close>: \<open>2\<close> to the \<open>e - 52\<close>.\<close>

definition ulp :: "int \<Rightarrow> real" where
  "ulp e = (if 52 \<le> e then 2 ^ nat (e - 52) else 1 / 2 ^ nat (52 - e))"

definition round_half_even :: "real \<Rightarrow> int" where
  "round_half_even r =
     (let f = \<lfloor>r\<rfloor>; d = r - of_int f
      in if d < 1 / 2 then f
         else if 1 / 2 < d then f + 1
         else if even f then f else f + 1)"

definition to_double :: "real \<Rightarrow> real option" where
  "to_double r =
     (if r = 0 then Some 0
      else
        (let e = max (binade r) (- 1022);
             d = of_int (round_half_even (r / ulp e)) * ulp e
         in if 2 ^ 1024 \<le> \<bar>d\<bar> then None else Some d))"


text \<open>
  \<^verbatim>\<open>int(x * widen_factor)\<close>. An integer too large for a double raises
  \<^verbatim>\<open>OverflowError\<close> in the conversion; \<^verbatim>\<open>int\<close> raises \<^verbatim>\<open>OverflowError\<close> on an infinite
  product and \<^verbatim>\<open>ValueError\<close> on the NaN that zero times an infinite multiplier is.
\<close>

definition int_of_product :: "int \<Rightarrow> real \<Rightarrow> py_error + int" where
  "int_of_product x w =
     (case to_double (of_int x) of
        None \<Rightarrow> Inl OverflowError
      | Some fx \<Rightarrow>
          (case to_double w of
             None \<Rightarrow> Inl (if fx = 0 then ValueError else OverflowError)
           | Some fw \<Rightarrow>
               (case to_double (fx * fw) of
                  None \<Rightarrow> Inl OverflowError
                | Some p \<Rightarrow> Inr (py_int p))))"

text \<open>A list comprehension over a function that can raise: the first failure is raised.\<close>

fun map_err :: "('a \<Rightarrow> py_error + 'b) \<Rightarrow> 'a list \<Rightarrow> py_error + 'b list" where
  "map_err f [] = Inr []"
| "map_err f (x # xs) =
     bind_err (f x) (\<lambda>y. bind_err (map_err f xs) (\<lambda>ys. Inr (y # ys)))"

section \<open>The network builder: blocks, \<^verbatim>\<open>ResNet\<close>, \<^verbatim>\<open>generate_model\<close>\<close>

text \<open>
  A layer is modelled by the shape of its weight, and a block by the arguments its
  constructor receives. Constructing a layer allocates its parameters, and a tensor
  with a negative dimension cannot be allocated (\<^verbatim>\<open>RuntimeError\<close>); a dimension of 0 is
  accepted, and the initialisation of the weights then does nothing. The weight of
  \<^verbatim>\<open>nn.Conv3d(in, out, kernel_size, bias=False)\<close> has shape \<open>[out, in, k1, k2, k3]\<close>
  (the stride does not enter it), the parameters of \<^verbatim>\<open>nn.BatchNorm3d(n)\<close> have shape \<open>[n]\<close>, the weight of
  \<^verbatim>\<open>nn.Linear(in, out)\<close> has shape \<open>[out, in]\<close>.
\<close>

definition tensor :: "int list \<Rightarrow> py_error + int list" where
  "tensor shape = (if list_ex (\<lambda>d. d < 0) shape then Inl RuntimeError else Inr shape)"

definition nn_Conv3d :: "int \<Rightarrow> int \<Rightarrow> int \<times> int \<times> int \<Rightarrow> py_error + int list" where
  "nn_Conv3d in_channels out_channels kernel_size =
     (case kernel_size of (k1, k2, k3) \<Rightarrow> tensor [out_channels, in_channels, k1, k2, k3])"

definition nn_BatchNorm3d :: "int \<Rightarrow> py_error + int list" where
  "nn_BatchNorm3d num_features = tensor [num_features]"

definition nn_Linear :: "int \<Rightarrow> int \<Rightarrow> py_error + int list" where
  "nn_Linear in_features out_features = tensor [out_features, in_features]"

definition conv3x3x3 :: "int \<Rightarrow> int \<Rightarrow> int \<Rightarrow> py_error + int list" where
  "conv3x3x3 in_planes out_planes strd = nn_Conv3d in_planes out_planes (3, 3, 3)"

definition conv1x1x1 :: "int \<Rightarrow> int \<Rightarrow> int \<Rightarrow> py_error + int list" where
  "conv1x1x1 in_planes out_planes strd = nn_Conv3d in_planes out_planes (1, 1, 1)"

datatype block_kind = BasicBlock | Bottleneck

fun expansion :: "block_kind \<Rightarrow> int" where
  "expansion BasicBlock = 1"
| "expansion Bottleneck = 4"

text \<open>
  The residual path of a block: \<open>ShortcutA planes stride\<close> is
  \<^verbatim>\<open>partial(self._downsample_basic_block, planes=..., stride=...)\<close>, and
  \<open>ShortcutB in out stride\<close> is
  \<^verbatim>\<open>nn.Sequential(conv1x1x1(in, out, stride), nn.BatchNorm3d(out))\<close>.
\<close>

datatype shortcut = ShortcutA int int | ShortcutB int int int

record block =
  blk_kind :: block_kind
  blk_in_planes :: int
  blk_planes :: int
  blk_stride :: int
  blk_downsample :: "shortcut option"

text \<open>
  \<^verbatim>\<open>block(in_planes, planes, stride=1, downsample=None)\<close>: the constructors of the two
  block classes build their convolutions and normalisations in the order of the source,
  and the block exists when all of them do.
\<close>

fun new_block ::
  "block_kind \<Rightarrow> int \<Rightarrow> int \<Rightarrow> int \<Rightarrow> shortcut option \<Rightarrow> py_error + block" where
  "new_block BasicBlock inp pl st ds =
     bind_err (conv3x3x3 inp pl st) (\<lambda>conv1.
     bind_err (nn_BatchNorm3d pl) (\<lambda>bn1.
     bind_err (conv3x3x3 pl pl 1) (\<lambda>conv2.
     bind_err (nn_BatchNorm3d pl) (\<lambda>bn2.
       Inr \<lparr>blk_kind = BasicBlock, blk_in_planes = inp, blk_planes = pl, blk_stride = st,
            blk_downsample = ds\<rparr>))))"
| "new_block Bottleneck inp pl st ds =
     bind_err (conv1x1x1 inp pl 1) (\<lambda>conv1.
     bind_err (nn_BatchNorm3d pl) (\<lambda>bn1.
     bind_err (conv3x3x3 pl pl st) (\<lambda>conv2.
     bind_err (nn_BatchNorm3d pl) (\<lambda>bn2.
     bind_err (conv1x1x1 pl (pl * 4) 1) (\<lambda>conv3.
     bind_err (nn_BatchNorm3d (pl * 4)) (\<lambda>bn3.
       Inr \<lparr>blk_kind = Bottleneck, blk_in_planes = inp, blk_planes = pl, blk_stride = st,
            blk_downsample = ds\<rparr>))))))"

text \<open>The loop \<^verbatim>\<open>for i in range(1, blocks): layers.append(block(self.in_planes, planes))\<close>.\<close>

fun more_blocks :: "nat \<Rightarrow> block_kind \<Rightarrow> int \<Rightarrow> int \<Rightarrow> py_error + block list" where
  "more_blocks 0 blk inp pl = Inr []"
| "more_blocks (Suc n) blk inp pl =
     bind_err (new_block blk inp pl 1 None) (\<lambda>b.
     bind_err (more_blocks n blk inp pl) (\<lambda>bs. Inr (b # bs)))"

text \<open>
  \<^verbatim>\<open>_make_layer\<close> reads and writes \<^verbatim>\<open>self.in_planes\<close>: the model takes its value and
  returns the new one beside the stage. \<^verbatim>\<open>range(1, blocks)\<close> has
  \<open>nat (blocks - 1)\<close> elements.
\<close>

definition make_layer ::
  "int \<Rightarrow> block_kind \<Rightarrow> int \<Rightarrow> int \<Rightarrow> string \<Rightarrow> int \<Rightarrow> py_error + (block list \<times> int)" where
  "make_layer self_in_planes blk planes blocks shortcut_type strd =
     bind_err
       (if strd \<noteq> 1 \<or> self_in_planes \<noteq> planes * expansion blk
        then (if shortcut_type = ''A''
              then Inr (Some (ShortcutA (planes * expansion blk) strd))
              else
                bind_err (conv1x1x1 self_in_planes (planes * expansion blk) strd) (\<lambda>conv.
                bind_err (nn_BatchNorm3d (planes * expansion blk)) (\<lambda>bn.
                  Inr (Some (ShortcutB self_in_planes (planes * expansion blk) strd)))))
        else Inr None)
       (\<lambda>downsample.
     bind_err (new_block blk self_in_planes planes strd downsample) (\<lambda>first.
     bind_err (more_blocks (nat (blocks - 1)) blk (planes * expansion blk) planes) (\<lambda>others.
       Inr (first # others, planes * expansion blk))))"

text \<open>The keyword arguments of \<^verbatim>\<open>ResNet.__init__\<close>, with the defaults of the source.\<close>

record resnet_kwargs =
  n_input_channels :: int
  conv1_t_size :: int
  conv1_t_stride :: int
  no_max_pool :: bool
  shortcut_type :: string
  widen_factor :: real
  n_classes :: int

definition default_kwargs :: resnet_kwargs where
  "default_kwargs =
     \<lparr>n_input_channels = 3, conv1_t_size = 7, conv1_t_stride = 1, no_max_pool = False,
      shortcut_type = ''B'', widen_factor = 1, n_classes = 400\<rparr>"

record resnet =
  depth_label :: int
  conv1_in :: int
  conv1_out :: int
  bn1_features :: int
  skip_max_pool :: bool
  layer1 :: "block list"
  layer2 :: "block list"
  layer3 :: "block list"
  layer4 :: "block list"
  fc_in :: int
  fc_out :: int

definition stages :: "resnet \<Rightarrow> block list list" where
  "stages net = [layer1 net, layer2 net, layer3 net, layer4 net]"

text \<open>
  \<^verbatim>\<open>self._make_layer(block, block_inplanes[k], layers[k], shortcut_type, stride)\<close>:
  the two subscripts are evaluated before the call.
\<close>

definition stage_call ::
  "int \<Rightarrow> block_kind \<Rightarrow> int list \<Rightarrow> int list \<Rightarrow> int \<Rightarrow> string \<Rightarrow> int \<Rightarrow>
   py_error + (block list \<times> int)" where
  "stage_call self_in_planes blk widths layers k sc_type strd =
     bind_err (py_index widths k) (\<lambda>planes.
     bind_err (py_index layers k) (\<lambda>blocks.
       make_layer self_in_planes blk planes blocks sc_type strd))"

text \<open>
  \<^verbatim>\<open>ResNet.__init__\<close>, statement by statement: the widths, the stem convolution and
  its normalisation, the four stages, the classifier. The pooling, activation and
  dropout layers have no sizes (the script sets \<^verbatim>\<open>dropout_rate\<close> to 0.5, which
  \<^verbatim>\<open>nn.Dropout\<close> accepts).
\<close>

definition ResNet_init ::
  "block_kind \<Rightarrow> int list \<Rightarrow> int list \<Rightarrow> int \<Rightarrow> resnet_kwargs \<Rightarrow> py_error + resnet" where
  "ResNet_init blk layers block_inplanes model_depth kw =
     bind_err (map_err (\<lambda>x. int_of_product x (widen_factor kw)) block_inplanes) (\<lambda>widths.
     bind_err (py_index widths 0) (\<lambda>w0.
     bind_err (nn_Conv3d (n_input_channels kw) w0 (conv1_t_size kw, 7, 7)) (\<lambda>conv1.
     bind_err (nn_BatchNorm3d w0) (\<lambda>bn1.
     bind_err (stage_call w0 blk widths layers 0 (shortcut_type kw) 1) (\<lambda>s1.
     bind_err (stage_call (snd s1) blk widths layers 1 (shortcut_type kw) 2) (\<lambda>s2.
     bind_err (stage_call (snd s2) blk widths layers 2 (shortcut_type kw) 2) (\<lambda>s3.
     bind_err (stage_call (snd s3) blk widths layers 3 (shortcut_type kw) 2) (\<lambda>s4.
     bind_err (py_index widths 3) (\<lambda>w3.
     bind_err (nn_Linear (w3 * expansion blk) (n_classes kw)) (\<lambda>fc.
       Inr \<lparr>depth_label = model_depth,
            conv1_in = n_input_channels kw, conv1_out = w0, bn1_features = w0,
            skip_max_pool = no_max_pool kw,
            layer1 = fst s1, layer2 = fst s2, layer3 = fst s3, layer4 = fst s4,
            fc_in = w3 * expansion blk, fc_out = n_classes kw\<rparr>))))))))))"

text \<open>
  \<^verbatim>\<open>assert model_depth in [10, 18, 34, 50, 101, 152, 200]\<close> raises
  \<^verbatim>\<open>AssertionError\<close> before anything is built. Past the assertion one of the seven
  branches is taken, so the initial \<^verbatim>\<open>model = None\<close> is never returned and the last
  branch needs no test.
\<close>

definition generate_model :: "int \<Rightarrow> int list \<Rightarrow> resnet_kwargs \<Rightarrow> py_error + resnet" where
  "generate_model model_depth inplanes kw =
     (if model_depth \<notin> set [10, 18, 34, 50, 101, 152, 200] then Inl AssertionError
      else if model_depth = 10 then ResNet_init BasicBlock [1, 1, 1, 1] inplanes model_depth kw
      else if model_depth = 18 then ResNet_init BasicBlock [2, 2, 2, 2] inplanes model_depth kw
      else if model_depth = 34 then ResNet_init BasicBlock [3, 4, 6, 3] inplanes model_depth kw
      else if model_depth = 50 then ResNet_init Bottleneck [3, 4, 6, 3] inplanes model_depth kw
      else if model_depth = 101 then ResNet_init Bottleneck [3, 4, 23, 3] inplanes model_depth kw
      else if model_depth = 152 then ResNet_init Bottleneck [3, 8, 36, 3] inplanes model_depth kw
      else ResNet_init Bottleneck [3, 24, 36, 3] inplanes model_depth kw)"

section \<open>Seeding: \<^verbatim>\<open>random_seed\<close> and the head of the trial loop\<close>

text \<open>
  The four generators the script seeds. Python's generator is deterministic once seeded:
  its state is the seed and the number of draws made since; the numbers it then yields
  are a parameter \<open>stream seed k\<close> (the \<open>k\<close>-th \<^verbatim>\<open>random.randint(0, 1000)\<close> after
  \<^verbatim>\<open>random.seed(seed)\<close>).
\<close>

record generators =
  np_seed :: int
  torch_seed :: int
  python_seed :: int
  python_draws :: nat
  cuda_seed :: "int option"

definition random_seed :: "int \<Rightarrow> bool \<Rightarrow> generators \<Rightarrow> generators" where
  "random_seed seed_value use_cuda g =
     g\<lparr>np_seed := seed_value, torch_seed := seed_value,
       python_seed := seed_value, python_draws := 0,
       cuda_seed := (if use_cuda then Some seed_value else cuda_seed g)\<rparr>"

definition randint :: "(int \<Rightarrow> nat \<Rightarrow> int) \<Rightarrow> generators \<Rightarrow> int \<times> generators" where
  "randint stream g =
     (stream (python_seed g) (python_draws g), g\<lparr>python_draws := Suc (python_draws g)\<rparr>)"

text \<open>
  The head of the body of \<^verbatim>\<open>for t in range(num_trials)\<close>: what is passed to
  \<^verbatim>\<open>random_seed\<close>, the value left in the variable \<^verbatim>\<open>seed\<close>, and the generators as
  the dataset split finds them.
\<close>

record seeding =
  seed_used :: int
  seed_after :: int
  gens_at_split :: generators

definition trial_seeding :: "(int \<Rightarrow> nat \<Rightarrow> int) \<Rightarrow> generators \<Rightarrow> seeding" where
  "trial_seeding stream g =
     (let seed = 1;
          g1 = random_seed seed True g;
          used = seed;
          (next_seed, g2) = randint stream g1;
          seed = next_seed
      in \<lparr>seed_used = used, seed_after = seed, gens_at_split = g2\<rparr>)"

text \<open>
  The trials in sequence. \<open>rest\<close> stands for what the remainder of a trial (split,
  shuffling, initialisation, training) does to the generators.
\<close>

fun run_trials ::
  "(int \<Rightarrow> nat \<Rightarrow> int) \<Rightarrow> (generators \<Rightarrow> generators) \<Rightarrow> nat \<Rightarrow> generators \<Rightarrow> seeding list" where
  "run_trials stream rest 0 g = []"
| "run_trials stream rest (Suc n) g =
     (let s = trial_seeding stream g
      in s # run_trials stream rest n (rest (gens_at_split s)))"

section \<open>The dataset split\<close>

text \<open>
  \<^verbatim>\<open>torch.utils.data.random_split(dataset, lengths)\<close> is library code: it draws a random
  permutation of the positions \<open>0 ..< len(dataset)\<close> and cuts it into consecutive pieces
  of the given lengths, raising \<^verbatim>\<open>ValueError\<close> when the lengths do not add up to the
  length of the dataset. The permutation drawn is the parameter \<open>perm\<close>.
\<close>

fun cut :: "nat list \<Rightarrow> int list \<Rightarrow> nat list list" where
  "cut perm [] = []"
| "cut perm (l # ls) = take (nat l) perm # cut (drop (nat l) perm) ls"

definition random_split :: "nat list \<Rightarrow> nat \<Rightarrow> int list \<Rightarrow> py_error + nat list list" where
  "random_split perm n lengths =
     (if sum_list lengths \<noteq> int n then Inl ValueError else Inr (cut perm lengths))"

definition split_sizes :: "nat \<Rightarrow> int \<times> int \<times> int" where
  "split_sizes n =
     (let train_size = py_int (0.6 * real n);
          validation_size = py_int (0.2 * real n);
          test_size = int n - train_size - validation_size
      in (train_size, validation_size, test_size))"

definition dataset_split :: "nat list \<Rightarrow> 'v CNNDataset \<Rightarrow> py_error + nat list list" where
  "dataset_split perm dataset =
     (case split_sizes (CNNDataset_len dataset) of
        (train_size, validation_size, test_size) \<Rightarrow>
          random_split perm (CNNDataset_len dataset) [train_size, validation_size, test_size])"

section \<open>Data preparation in the main script\<close>

text \<open>
  \<^verbatim>\<open>load_image_data\<close> stores \<^verbatim>\<open>[np.load(f0), np.load(f1)]\<close> under each patient: a list
  of two arrays. An array is modelled by its elements in storage order, and
  \<^verbatim>\<open>np.multiply\<close> on two arrays of one shape multiplies them position by position.
\<close>

definition loaded_images :: "(int \<Rightarrow> (real list \<times> real list) option) \<Rightarrow> int \<Rightarrow> real list py_obj option" where
  "loaded_images channels d = map_option (\<lambda>(a, b). PyList [a, b]) (channels d)"

definition np_multiply :: "real list \<Rightarrow> real list \<Rightarrow> real list" where
  "np_multiply a b = map2 (*) a b"

fun subscript_int :: "'v py_obj \<Rightarrow> int \<Rightarrow> py_error + 'v" where
  "subscript_int (PyList xs) i = py_index xs i"
| "subscript_int (PyDict m) i = Inl KeyError"

text \<open>
  The loop \<^verbatim>\<open>for each_patient in patients_used\<close> after \<^verbatim>\<open>data = {}\<close>: its state is the
  dictionary \<^verbatim>\<open>data\<close> and the variable \<^verbatim>\<open>input\<close>. The body assigns \<^verbatim>\<open>input\<close> and
  nothing else.
\<close>

definition prepare_step ::
  "(int \<Rightarrow> real list py_obj option) \<Rightarrow>
   py_error + ((int \<Rightarrow> real list py_obj option) \<times> real list option) \<Rightarrow> int \<Rightarrow>
   py_error + ((int \<Rightarrow> real list py_obj option) \<times> real list option)" where
  "prepare_step images st each_patient =
     bind_err st (\<lambda>(data, inp).
       case images each_patient of
         None \<Rightarrow> Inl KeyError
       | Some entry \<Rightarrow>
           bind_err (subscript_int entry 0) (\<lambda>a.
           bind_err (subscript_int entry 1) (\<lambda>b.
             Inr (data, Some (np_multiply a b)))))"

definition prepare_data ::
  "(int \<Rightarrow> real list py_obj option) \<Rightarrow> int list \<Rightarrow>
   py_error + ((int \<Rightarrow> real list py_obj option) \<times> real list option)" where
  "prepare_data images patients_used =
     foldl (prepare_step images) (Inr (\<lambda>_. None, None)) patients_used"

text \<open>\<^verbatim>\<open>dataset = CNNDataset(images, patients_used)\<close> in the trial loop.\<close>

definition trial_dataset ::
  "(int \<Rightarrow> real list py_obj option) \<Rightarrow> int list \<Rightarrow> real list CNNDataset" where
  "trial_dataset images patients_used = CNNDataset_init images patients_used"

section \<open>The evaluation routine: \<^verbatim>\<open>evaluate\<close>\<close>

text \<open>
  A batch is the list of its (input, label) examples. The label tensor of a batch of
  \<open>B\<close> examples has shape \<open>(B, 1)\<close>: the routine reads \<^verbatim>\<open>labels.tolist()[i][0]\<close>, and
  the loss compares it with the outputs of the one-unit head, of shape \<open>(B, 1)\<close>. The
  network is the function from one input to its one output, the loss function
  \<open>criterion\<close> and \<^verbatim>\<open>roc_auc_score\<close> (library code) are parameters.

  \<^verbatim>\<open>(outputs > 0.0).squeeze().long()\<close> has shape \<open>(B)\<close>; compared by \<^verbatim>\<open>!=\<close> with
  \<^verbatim>\<open>labels\<close> of shape \<open>(B, 1)\<close> it is broadcast to shape \<open>(B, B)\<close>, whose entry at row
  \<open>j\<close> and column \<open>k\<close> compares the label of example \<open>j\<close> with the prediction for
  example \<open>k\<close>; \<^verbatim>\<open>corr.sum()\<close> counts the entries that are true.

  The variable \<^verbatim>\<open>i\<close> read after the loops is the one the inner loop
  \<^verbatim>\<open>for i in range(len(labels.tolist()))\<close> left: it is unbound until a batch with an
  example has been seen.
\<close>

type_synonym 'x batch = "('x \<times> int) list"

record eval_acc =
  total_err :: real
  total_loss :: real
  total_epoch :: nat
  true_labels :: "int list"
  estimated :: "real list"
  loop_i :: "nat option"

definition eval_init :: eval_acc where
  "eval_init =
     \<lparr>total_err = 0, total_loss = 0, total_epoch = 0, true_labels = [], estimated = [],
      loop_i = None\<rparr>"

definition thresholded :: "real \<Rightarrow> int" where
  "thresholded out = (if out > 0 then 1 else 0)"

definition corr_sum :: "real list \<Rightarrow> int list \<Rightarrow> nat" where
  "corr_sum outputs labels =
     length (filter (\<lambda>(l, p). p \<noteq> l) (List.product labels (map thresholded outputs)))"

definition eval_batch ::
  "('x \<Rightarrow> real) \<Rightarrow> (real list \<Rightarrow> real list \<Rightarrow> real) \<Rightarrow> eval_acc \<Rightarrow> 'x batch \<Rightarrow> eval_acc" where
  "eval_batch net criterion acc b =
     (let inputs = map fst b;
          labels = map snd b;
          outputs = map net inputs;
          loss = criterion outputs (map real_of_int labels)
      in \<lparr>total_err = total_err acc + real (corr_sum outputs labels),
          total_loss = total_loss acc + loss,
          total_epoch = total_epoch acc + length labels,
          true_labels = true_labels acc @ labels,
          estimated = estimated acc @ outputs,
          loop_i = (if labels = [] then loop_i acc else Some (length labels - 1))\<rparr>)"

definition evaluate ::
  "('x \<Rightarrow> real) \<Rightarrow> 'x batch list \<Rightarrow> (real list \<Rightarrow> real list \<Rightarrow> real) \<Rightarrow>
   (int list \<Rightarrow> real list \<Rightarrow> py_error + real) \<Rightarrow> py_error + (real \<times> real \<times> real)" where
  "evaluate net loader criterion roc_auc_score =
     (let acc = foldl (eval_batch net criterion) eval_init loader in
      bind_err (roc_auc_score (true_labels acc) (estimated acc)) (\<lambda>auc.
        if total_epoch acc = 0 then Inl ZeroDivisionError
        else case loop_i acc of
               None \<Rightarrow> Inl NameError
             | Some i \<Rightarrow>
                 Inr (total_err acc / real (total_epoch acc),
                      total_loss acc / real (i + 1),
                      auc)))"

text \<open>The final activation of \<^verbatim>\<open>ResNet.forward\<close>.\<close>

definition sigmoid :: "real \<Rightarrow> real" where
  "sigmoid x = 1 / (1 + exp (- x))"

section \<open>The training loop: \<^verbatim>\<open>train_net\<close> and the trial that calls it\<close>

text \<open>
  The network state is of a type \<open>'n\<close>. One training batch (noise, forward, backward,
  optimiser step) is the parameter \<open>fit\<close>, which returns the new state, the outputs and
  \<^verbatim>\<open>loss.item()\<close>; \<open>forward\<close> is the network in evaluation mode. The loaders are the
  module-level \<^verbatim>\<open>train_dataloader\<close> and \<^verbatim>\<open>validation_dataloader\<close>.
\<close>

record 'n epoch_vars =
  net_state :: 'n
  train_loss :: real
  val_loss :: real
  train_auc :: real
  val_auc :: real

definition train_batches_loop ::
  "('n \<Rightarrow> 'x batch \<Rightarrow> 'n \<times> real list \<times> real) \<Rightarrow> real \<Rightarrow> 'n \<Rightarrow> 'x batch list \<Rightarrow>
   'n \<times> real \<times> nat \<times> int list \<times> real list" where
  "train_batches_loop fit batch_size net loader =
     foldl (\<lambda>(n, tloss, tb, tt, te) b.
              case fit n b of (n', output, loss) \<Rightarrow>
                (n', tloss + loss * batch_size, tb + 1, tt @ map snd b, te @ output))
           (net, 0, 0, [], []) loader"

definition validation_loop ::
  "('n \<Rightarrow> 'x \<Rightarrow> real) \<Rightarrow> (real list \<Rightarrow> real list \<Rightarrow> real) \<Rightarrow> real \<Rightarrow> 'n \<Rightarrow> 'x batch list \<Rightarrow>
   real \<times> nat \<times> int list \<times> real list" where
  "validation_loop forward criterion batch_size net loader =
     foldl (\<lambda>(vloss, bs, vt, ve) b.
              let output = map (forward net) (map fst b)
              in (vloss + criterion output (map real_of_int (map snd b)) * batch_size,
                  bs + 1, vt @ map snd b, ve @ output))
           (0, 0, [], []) loader"

definition py_div :: "real \<Rightarrow> real \<Rightarrow> py_error + real" where
  "py_div a b = (if b = 0 then Inl ZeroDivisionError else Inr (a / b))"

definition train_epoch ::
  "('n \<Rightarrow> 'x batch \<Rightarrow> 'n \<times> real list \<times> real) \<Rightarrow> ('n \<Rightarrow> 'x \<Rightarrow> real) \<Rightarrow>
   (real list \<Rightarrow> real list \<Rightarrow> real) \<Rightarrow> (int list \<Rightarrow> real list \<Rightarrow> py_error + real) \<Rightarrow>
   'x batch list \<Rightarrow> 'x batch list \<Rightarrow> real \<Rightarrow> 'n epoch_vars \<Rightarrow> py_error + 'n epoch_vars" where
  "train_epoch fit forward criterion roc_auc_score train_dataloader validation_dataloader
     batch_size vars =
     (case train_batches_loop fit batch_size (net_state vars) train_dataloader of
        (net, tloss, train_batches, training_true, training_estimated) \<Rightarrow>
      bind_err (py_div tloss (real train_batches * batch_size)) (\<lambda>tloss'.
      case validation_loop forward criterion batch_size net validation_dataloader of
        (vloss, batches, validation_true, validation_estimated) \<Rightarrow>
      bind_err (py_div vloss (real batches * batch_size)) (\<lambda>vloss'.
      bind_err (roc_auc_score validation_true validation_estimated) (\<lambda>va.
      bind_err (roc_auc_score training_true training_estimated) (\<lambda>ta.
        Inr \<lparr>net_state = net, train_loss = tloss', val_loss = vloss',
             train_auc = ta, val_auc = va\<rparr>)))))"

fun epochs_loop ::
  "('n epoch_vars \<Rightarrow> py_error + 'n epoch_vars) \<Rightarrow> nat \<Rightarrow> 'n epoch_vars \<Rightarrow> py_error + 'n epoch_vars" where
  "epochs_loop body 0 vars = Inr vars"
| "epochs_loop body (Suc k) vars = bind_err (body vars) (epochs_loop body k)"

text \<open>
  What the caller unpacks: \<^verbatim>\<open>epoch, train_err, train_loss, train_auc, val_err, val_loss,
  val_auc, test_auc\<close>. The body of \<^verbatim>\<open>train_net\<close> ends after the loop over the epochs
  with no \<^verbatim>\<open>return\<close> statement, so the call yields Python's \<^verbatim>\<open>None\<close>, here \<open>None\<close>.
\<close>

type_synonym trial_result = "nat \<times> real \<times> real \<times> real \<times> real \<times> real \<times> real \<times> real"

definition train_net ::
  "('n \<Rightarrow> 'x batch \<Rightarrow> 'n \<times> real list \<times> real) \<Rightarrow> ('n \<Rightarrow> 'x \<Rightarrow> real) \<Rightarrow>
   (real list \<Rightarrow> real list \<Rightarrow> real) \<Rightarrow> (int list \<Rightarrow> real list \<Rightarrow> py_error + real) \<Rightarrow>
   'x batch list \<Rightarrow> 'x batch list \<Rightarrow> 'n \<Rightarrow> real \<Rightarrow> nat \<Rightarrow> py_error + trial_result option" where
  "train_net fit forward criterion roc_auc_score train_dataloader validation_dataloader
     net batch_size num_epochs =
     bind_err
       (epochs_loop
          (train_epoch fit forward criterion roc_auc_score train_dataloader
             validation_dataloader batch_size)
          num_epochs
          \<lparr>net_state = net, train_loss = 0, val_loss = 0, train_auc = 0, val_auc = 0\<rparr>)
       (\<lambda>vars. Inr None)"

text \<open>Unpacking eight targets from the value returned: \<^verbatim>\<open>None\<close> is not iterable.\<close>

definition unpack8 :: "trial_result option \<Rightarrow> py_error + trial_result" where
  "unpack8 v = (case v of None \<Rightarrow> Inl TypeError | Some r \<Rightarrow> Inr r)"

text \<open>The trial from the call of \<^verbatim>\<open>train_net\<close> to the values its report prints.\<close>

definition trial_report ::
  "('n \<Rightarrow> 'x batch \<Rightarrow> 'n \<times> real list \<times> real) \<Rightarrow> ('n \<Rightarrow> 'x \<Rightarrow> real) \<Rightarrow>
   (real list \<Rightarrow> real list \<Rightarrow> real) \<Rightarrow> (int list \<Rightarrow> real list \<Rightarrow> py_error + real) \<Rightarrow>
   'x batch list \<Rightarrow> 'x batch list \<Rightarrow> 'n \<Rightarrow> real \<Rightarrow> nat \<Rightarrow> py_error + trial_result" where
  "trial_report fit forward criterion roc_auc_score train_dataloader validation_dataloader
     net batch_size num_epochs =
     bind_err
       (train_net fit forward criterion roc_auc_score train_dataloader
          validation_dataloader net batch_size num_epochs)
       unpack8"

section \<open>Tables and inputs used in the statements\<close>

text \<open>
  The blocks that \<^verbatim>\<open>_make_layer\<close> puts into a stage, written out: the first block with
  the stride of the stage and the downsample path it needs, then the others.
\<close>

definition plain_block :: "block_kind \<Rightarrow> int \<Rightarrow> int \<Rightarrow> int \<Rightarrow> shortcut option \<Rightarrow> block" where
  "plain_block k inp pl st ds =
     \<lparr>blk_kind = k, blk_in_planes = inp, blk_planes = pl, blk_stride = st,
      blk_downsample = ds\<rparr>"

definition stage_blocks :: "int \<Rightarrow> block_kind \<Rightarrow> int \<Rightarrow> int \<Rightarrow> string \<Rightarrow> int \<Rightarrow> block list" where
  "stage_blocks p k pl n st s =
     plain_block k p pl s
       (if s \<noteq> 1 \<or> p \<noteq> pl * expansion k
        then (if st = ''A'' then Some (ShortcutA (pl * expansion k) s)
              else Some (ShortcutB p (pl * expansion k) s))
        else None)
     # replicate (nat (n - 1)) (plain_block k (pl * expansion k) pl 1 None)"

text \<open>
  A run of the training loop that raises nothing: a network that always answers one
  half, a loss of 1 on every batch, and a score function that always answers one half.
\<close>

definition toy_fit :: "unit \<Rightarrow> unit batch \<Rightarrow> unit \<times> real list \<times> real" where
  "toy_fit n b = (n, map (\<lambda>_. 1 / 2) b, 1)"

definition toy_forward :: "unit \<Rightarrow> unit \<Rightarrow> real" where
  "toy_forward n x = 1 / 2"

definition toy_criterion :: "real list \<Rightarrow> real list \<Rightarrow> real" where
  "toy_criterion outputs labels = 1"

definition toy_score :: "int list \<Rightarrow> real list \<Rightarrow> py_error + real" where
  "toy_score true_values estimates = Inr (1 / 2)"

definition toy_loader :: "unit batch list" where
  "toy_loader = [[((), 1), ((), 0)]]"

text \<open>
  The table of the specification: the block counts per stage and the block kind for a
  depth.
\<close>

definition spec_block_counts :: "int \<Rightarrow> nat list" where
  "spec_block_counts depth =
     (if depth = 10 then [1, 1, 1, 1]
      else if depth = 18 then [2, 2, 2, 2]
      else if depth = 34 then [3, 4, 6, 3]
      else if depth = 50 then [3, 4, 6, 3]
      else if depth = 101 then [3, 4, 23, 3]
      else if depth = 152 then [3, 8, 36, 3]
      else if depth = 200 then [3, 24, 36, 3]
      else [])"

definition spec_block_kind :: "int \<Rightarrow> block_kind" where
  "spec_block_kind depth = (if depth \<le> 34 then BasicBlock else Bottleneck)"

text \<open>
  The sizes of a configuration that the tensor library accepts: every width
  \<^verbatim>\<open>int(x * widen_factor)\<close> is computed and is not negative, and neither are the
  number of input channels, the temporal kernel size and the number of classes.
\<close>

definition sizes_accepted :: "int list \<Rightarrow> resnet_kwargs \<Rightarrow> bool" where
  "sizes_accepted inplanes kw \<longleftrightarrow>
     list_all (\<lambda>x. case int_of_product x (widen_factor kw) of
                      Inl e \<Rightarrow> False | Inr v \<Rightarrow> 0 \<le> v) inplanes
     \<and> 0 \<le> n_input_channels kw \<and> 0 \<le> conv1_t_size kw \<and> 0 \<le> n_classes kw"

text \<open>One patient, number 7, whose two channels are \<open>[2, 3]\<close> and \<open>[5, 7]\<close>.\<close>

definition one_patient :: "int \<Rightarrow> (real list \<times> real list) option" where
  "one_patient = (\<lambda>_. None)(7 \<mapsto> ([2, 3], [5, 7]))"

text \<open>
  The generators as every trial finds them at its dataset split: all seeded with 1, and
  one number drawn from Python's generator.
\<close>

definition gens_seeded_1 :: generators where
  "gens_seeded_1 =
     \<lparr>np_seed = 1, torch_seed = 1, python_seed = 1, python_draws = 1, cuda_seed = Some 1\<rparr>"

text \<open>
  Three rows of a sheet: patient 5 with both indicators 0, patient 6 with both
  indicators 1, patient 8 with the fusion indicator alone.
\<close>

definition row_a :: row where
  "row_a = \<lparr>code = Some 5, braf_v600e = Some 0, braf_fusion = Some 0, features = [1]\<rparr>"

definition row_b :: row where
  "row_b = \<lparr>code = Some 6, braf_v600e = Some 1, braf_fusion = Some 1, features = [2]\<rparr>"

definition row_c :: row where
  "row_c = \<lparr>code = Some 8, braf_v600e = Some 0, braf_fusion = Some 1, features = [3]\<rparr>"

text \<open>Five patients, and one permutation of their positions.\<close>

definition five_patients :: "real list CNNDataset" where
  "five_patients = CNNDataset_init (\<lambda>_. None) [11, 12, 13, 14, 15]"



text \<open>A data mapping that holds patient 7 and no other.\<close>

definition sample_entry :: "real list py_obj" where
  "sample_entry = PyDict ((\<lambda>_. None)(''input'' \<mapsto> [2, 3], ''label'' \<mapsto> [1]))"

definition sample_data :: "int \<Rightarrow> real list py_obj option" where
  "sample_data = (\<lambda>_. None)(7 \<mapsto> sample_entry)"

section \<open>Properties\<close>

subsection \<open>Auxiliary facts\<close>

lemma py_index_in_range:
  "0 \<le> i \<Longrightarrow> i < int (length xs) \<Longrightarrow> py_index xs i = Inr (xs ! nat i)"
  by (simp add: py_index_def Let_def)

lemma py_index_nat:
  "k < length xs \<Longrightarrow> py_index xs (int k) = Inr (xs ! k)"
  by (simp add: py_index_def Let_def)

lemma py_index_Inr_length:
  "py_index xs (int k) = Inr v \<Longrightarrow> k < length xs"
  by (simp add: py_index_def Let_def split: if_splits)


subsection \<open>Facts about the network builder\<close>

lemma bind_err_Inr_iff:
  "bind_err r f = Inr v \<longleftrightarrow> (\<exists>a. r = Inr a \<and> f a = Inr v)"
  by (cases r) (simp_all add: bind_err_def)

lemma bind_err_Inr [simp]: "bind_err (Inr a) f = f a"
  by (simp add: bind_err_def)

lemma tensor_Inr_iff:
  "tensor sh = Inr t \<longleftrightarrow> (\<forall>d \<in> set sh. 0 \<le> d) \<and> t = sh"
  by (auto simp: tensor_def list_ex_iff not_le [symmetric])

lemma new_block_ok:
  "0 \<le> inp \<Longrightarrow> 0 \<le> pl \<Longrightarrow> new_block k inp pl st ds = Inr (plain_block k inp pl st ds)"
  by (cases k)
    (simp_all add: conv3x3x3_def conv1x1x1_def nn_Conv3d_def nn_BatchNorm3d_def tensor_def
      plain_block_def)

lemma new_block_Inr:
  assumes "new_block k inp pl st ds = Inr b"
  shows "b = plain_block k inp pl st ds \<and> 0 \<le> inp \<and> 0 \<le> pl"
proof (cases k)
  case BasicBlock
  with assms show ?thesis
    by (auto simp: bind_err_Inr_iff conv3x3x3_def nn_Conv3d_def nn_BatchNorm3d_def
        tensor_Inr_iff plain_block_def)
next
  case Bottleneck
  with assms show ?thesis
    by (auto simp: bind_err_Inr_iff conv3x3x3_def conv1x1x1_def nn_Conv3d_def
        nn_BatchNorm3d_def tensor_Inr_iff plain_block_def)
qed

lemma more_blocks_ok:
  "0 \<le> inp \<Longrightarrow> 0 \<le> pl \<Longrightarrow>
     more_blocks n k inp pl = Inr (replicate n (plain_block k inp pl 1 None))"
  by (induction n) (simp_all add: new_block_ok)

lemma more_blocks_Inr:
  "more_blocks n k inp pl = Inr bs \<Longrightarrow> bs = replicate n (plain_block k inp pl 1 None)"
proof (induction n arbitrary: bs)
  case 0
  then show ?case by simp
next
  case (Suc n)
  then show ?case by (auto simp: bind_err_Inr_iff dest: new_block_Inr)
qed

lemma expansion_pos: "0 < expansion k"
  by (cases k) simp_all

lemma make_layer_ok:
  assumes "0 \<le> p" "0 \<le> pl"
  shows "make_layer p k pl n st s = Inr (stage_blocks p k pl n st s, pl * expansion k)"
proof -
  have e: "0 \<le> pl * expansion k"
    using assms(2) expansion_pos [of k] by simp
  have c: "conv1x1x1 p (pl * expansion k) s = Inr [pl * expansion k, p, 1, 1, 1]"
    using assms(1) e by (simp add: conv1x1x1_def nn_Conv3d_def tensor_def)
  have b: "nn_BatchNorm3d (pl * expansion k) = Inr [pl * expansion k]"
    using e by (simp add: nn_BatchNorm3d_def tensor_def)
  show ?thesis
    unfolding make_layer_def stage_blocks_def
    by (simp add: c b new_block_ok [OF assms] more_blocks_ok [OF e assms(2)])
qed


lemma map_err_Inr:
  "map_err f xs = Inr ys \<Longrightarrow>
     length ys = length xs \<and> (\<forall>k < length xs. f (xs ! k) = Inr (ys ! k))"
proof (induction xs arbitrary: ys)
  case Nil
  then show ?case by simp
next
  case (Cons x xs)
  from Cons.prems obtain y ys' where y: "f x = Inr y" and r: "map_err f xs = Inr ys'"
    and ys: "ys = y # ys'"
    by (auto simp: bind_err_Inr_iff)
  from Cons.IH [OF r] have l: "length ys' = length xs"
    and n: "\<forall>k < length xs. f (xs ! k) = Inr (ys' ! k)" by simp_all
  show ?case
  proof (intro conjI allI impI)
    show "length ys = length (x # xs)" using l ys by simp
    fix k assume "k < length (x # xs)"
    then show "f ((x # xs) ! k) = Inr (ys ! k)"
      using y n ys by (cases k) simp_all
  qed
qed

lemma map_err_ok:
  "\<forall>x \<in> set xs. \<exists>v. f x = Inr v \<Longrightarrow> \<exists>ys. map_err f xs = Inr ys"
proof (induction xs)
  case Nil
  show ?case by simp
next
  case (Cons x xs)
  then obtain v ys where "f x = Inr v" "map_err f xs = Inr ys" by auto
  then show ?case by simp
qed


lemma stage_call_ok:
  assumes "k < length ws" "k < length ls" "0 \<le> p" "0 \<le> ws ! k"
  shows "stage_call p blk ws ls (int k) st s =
           Inr (stage_blocks p blk (ws ! k) (ls ! k) st s, ws ! k * expansion blk)"
  unfolding stage_call_def
  by (simp add: py_index_nat [OF assms(1)] py_index_nat [OF assms(2)]
      make_layer_ok [OF assms(3,4)])


lemma ResNet_init_ok:
  assumes ws: "map_err (\<lambda>x. int_of_product x (widen_factor kw)) inplanes = Inr ws"
      and len: "4 \<le> length inplanes"
      and nn: "0 \<le> ws ! 0" "0 \<le> ws ! 1" "0 \<le> ws ! 2" "0 \<le> ws ! 3"
      and sz: "0 \<le> n_input_channels kw" "0 \<le> conv1_t_size kw" "0 \<le> n_classes kw"
  shows "ResNet_init blk [n0, n1, n2, n3] inplanes d kw =
     Inr \<lparr>depth_label = d,
          conv1_in = n_input_channels kw, conv1_out = ws ! 0, bn1_features = ws ! 0,
          skip_max_pool = no_max_pool kw,
          layer1 = stage_blocks (ws ! 0) blk (ws ! 0) n0 (shortcut_type kw) 1,
          layer2 = stage_blocks (ws ! 0 * expansion blk) blk (ws ! 1) n1 (shortcut_type kw) 2,
          layer3 = stage_blocks (ws ! 1 * expansion blk) blk (ws ! 2) n2 (shortcut_type kw) 2,
          layer4 = stage_blocks (ws ! 2 * expansion blk) blk (ws ! 3) n3 (shortcut_type kw) 2,
          fc_in = ws ! 3 * expansion blk, fc_out = n_classes kw\<rparr>"
proof -
  from map_err_Inr [OF ws] have "length ws = length inplanes" by simp
  with len have l: "0 < length ws" "1 < length ws" "2 < length ws" "3 < length ws"
    by linarith+
  have e: "0 \<le> ws ! 0 * expansion blk" "0 \<le> ws ! 1 * expansion blk"
    "0 \<le> ws ! 2 * expansion blk" "0 \<le> ws ! 3 * expansion blk"
    using nn expansion_pos [of blk] by simp_all
  have i0: "py_index ws 0 = Inr (ws ! 0)" using py_index_nat [OF l(1)] by simp
  have i3: "py_index ws 3 = Inr (ws ! 3)" using py_index_nat [OF l(4)] by simp
  have c1: "nn_Conv3d (n_input_channels kw) (ws ! 0) (conv1_t_size kw, 7, 7) =
      Inr [ws ! 0, n_input_channels kw, conv1_t_size kw, 7, 7]"
    using nn(1) sz by (simp add: nn_Conv3d_def tensor_def)
  have b1: "nn_BatchNorm3d (ws ! 0) = Inr [ws ! 0]"
    using nn(1) by (simp add: nn_BatchNorm3d_def tensor_def)
  have fc: "nn_Linear (ws ! 3 * expansion blk) (n_classes kw) =
      Inr [n_classes kw, ws ! 3 * expansion blk]"
    using e(4) sz(3) by (simp add: nn_Linear_def tensor_def)
  have s1: "stage_call (ws ! 0) blk ws [n0, n1, n2, n3] 0 (shortcut_type kw) 1 =
      Inr (stage_blocks (ws ! 0) blk (ws ! 0) n0 (shortcut_type kw) 1, ws ! 0 * expansion blk)"
    using stage_call_ok [OF l(1) _ nn(1) nn(1), of "[n0, n1, n2, n3]" blk "shortcut_type kw" 1]
    by simp
  have s2: "stage_call (ws ! 0 * expansion blk) blk ws [n0, n1, n2, n3] 1 (shortcut_type kw) 2 =
      Inr (stage_blocks (ws ! 0 * expansion blk) blk (ws ! 1) n1 (shortcut_type kw) 2,
           ws ! 1 * expansion blk)"
    using stage_call_ok [OF l(2) _ e(1) nn(2), of "[n0, n1, n2, n3]" blk "shortcut_type kw" 2]
    by simp
  have s3: "stage_call (ws ! 1 * expansion blk) blk ws [n0, n1, n2, n3] 2 (shortcut_type kw) 2 =
      Inr (stage_blocks (ws ! 1 * expansion blk) blk (ws ! 2) n2 (shortcut_type kw) 2,
           ws ! 2 * expansion blk)"
    using stage_call_ok [OF l(3) _ e(2) nn(3), of "[n0, n1, n2, n3]" blk "shortcut_type kw" 2]
    by simp
  have s4: "stage_call (ws ! 2 * expansion blk) blk ws [n0, n1, n2, n3] 3 (shortcut_type kw) 2 =
      Inr (stage_blocks (ws ! 2 * expansion blk) blk (ws ! 3) n3 (shortcut_type kw) 2,
           ws ! 3 * expansion blk)"
    using stage_call_ok [OF l(4) _ e(3) nn(4), of "[n0, n1, n2, n3]" blk "shortcut_type kw" 2]
    by simp
  show ?thesis
    unfolding ResNet_init_def ws bind_err_Inr i0 c1 b1 s1 snd_conv s2 s3 s4 i3 fc fst_conv
    by (rule refl)
qed


lemma stage_blocks_length: "length (stage_blocks p k pl n st s) = Suc (nat (n - 1))"
  by (simp add: stage_blocks_def)

lemma stage_blocks_kind: "b \<in> set (stage_blocks p k pl n st s) \<Longrightarrow> blk_kind b = k"
  by (auto simp: stage_blocks_def plain_block_def)




subsection \<open>The trial report (C1)\<close>

lemma train_net_returns_None:
  "train_net fit forward criterion roc_auc_score train_dataloader validation_dataloader
     net batch_size num_epochs = Inr v \<Longrightarrow> v = None"
  by (auto simp: train_net_def bind_err_def split: sum.splits)

lemma toy_epoch:
  "train_epoch toy_fit toy_forward toy_criterion toy_score toy_loader toy_loader 8 vars =
     Inr \<lparr>net_state = (), train_loss = 1, val_loss = 1, train_auc = 1 / 2, val_auc = 1 / 2\<rparr>"
  by (simp add: train_epoch_def train_batches_loop_def validation_loop_def toy_fit_def
      toy_forward_def toy_criterion_def toy_score_def toy_loader_def py_div_def
      bind_err_def Let_def)

lemma toy_train_net:
  "train_net toy_fit toy_forward toy_criterion toy_score toy_loader toy_loader () 8 2 =
     Inr None"
proof -
  have two: "(2::nat) = Suc (Suc 0)" by simp
  show ?thesis
    unfolding train_net_def two by (simp add: toy_epoch bind_err_def)
qed

text \<open>
  C1 (the code departs from it). \<^verbatim>\<open>train_net\<close> keeps no record of the epoch with the
  lowest validation loss and has no \<^verbatim>\<open>return\<close> statement: a call that raises nothing
  yields \<^verbatim>\<open>None\<close>, and the caller, which unpacks eight values from it, raises
  \<^verbatim>\<open>TypeError\<close>. No trial reaches its report; a run of two epochs that raises nothing
  in training ends so.
\<close>

theorem trial_never_reports:
  "(case train_net fit forward criterion roc_auc_score train_dataloader
           validation_dataloader net batch_size num_epochs of
      Inl e \<Rightarrow>
        trial_report fit forward criterion roc_auc_score train_dataloader
          validation_dataloader net batch_size num_epochs = Inl e
    | Inr v \<Rightarrow>
        v = None \<and>
        trial_report fit forward criterion roc_auc_score train_dataloader
          validation_dataloader net batch_size num_epochs = Inl TypeError)
   \<and> train_net toy_fit toy_forward toy_criterion toy_score toy_loader toy_loader () 8 2 =
       Inr None
   \<and> trial_report toy_fit toy_forward toy_criterion toy_score toy_loader toy_loader () 8 2 =
       Inl TypeError"
proof (intro conjI)
  show "case train_net fit forward criterion roc_auc_score train_dataloader
           validation_dataloader net batch_size num_epochs of
      Inl e \<Rightarrow>
        trial_report fit forward criterion roc_auc_score train_dataloader
          validation_dataloader net batch_size num_epochs = Inl e
    | Inr v \<Rightarrow>
        v = None \<and>
        trial_report fit forward criterion roc_auc_score train_dataloader
          validation_dataloader net batch_size num_epochs = Inl TypeError"
  proof (cases "train_net fit forward criterion roc_auc_score train_dataloader
           validation_dataloader net batch_size num_epochs")
    case (Inl e)
    then show ?thesis by (simp add: trial_report_def bind_err_def)
  next
    case (Inr v)
    from train_net_returns_None [OF Inr] have "v = None" .
    with Inr show ?thesis by (simp add: trial_report_def bind_err_def unpack8_def)
  qed
  show "train_net toy_fit toy_forward toy_criterion toy_score toy_loader toy_loader () 8 2 =
       Inr None"
    by (rule toy_train_net)
  show "trial_report toy_fit toy_forward toy_criterion toy_score toy_loader toy_loader () 8 2 =
       Inl TypeError"
    by (simp add: trial_report_def toy_train_net bind_err_def unpack8_def)
qed

subsection \<open>The depth table (C2)\<close>

lemma int_of_product_unit:
  "int_of_product 64 1 = Inr 64" "int_of_product 128 1 = Inr 128"
  "int_of_product 256 1 = Inr 256" "int_of_product 512 1 = Inr 512"
  "int_of_product (- 4) 1 = Inr (- 4)" "int_of_product 8 1 = Inr 8"
  "int_of_product 16 1 = Inr 16" "int_of_product 32 1 = Inr 32"
  by (simp_all add: int_of_product_def to_double_def binade_def ulp_def round_half_even_def
      ilog2.simps py_int_def Let_def)

lemma stages_of_init:
  assumes len: "4 \<le> length inplanes"
      and acc: "sizes_accepted inplanes kw"
  shows "\<exists>net. ResNet_init blk [n0, n1, n2, n3] inplanes d kw = Inr net \<and>
           map length (stages net) =
             [Suc (nat (n0 - 1)), Suc (nat (n1 - 1)), Suc (nat (n2 - 1)), Suc (nat (n3 - 1))] \<and>
           list_all (\<lambda>b. blk_kind b = blk) (concat (stages net))"
proof -
  let ?f = "\<lambda>x. int_of_product x (widen_factor kw)"
  from acc have sz: "0 \<le> n_input_channels kw" "0 \<le> conv1_t_size kw" "0 \<le> n_classes kw"
    by (simp_all add: sizes_accepted_def)
  have each: "\<forall>x \<in> set inplanes. \<exists>v. ?f x = Inr v \<and> 0 \<le> v"
  proof
    fix x assume "x \<in> set inplanes"
    with acc have "case ?f x of Inl e \<Rightarrow> False | Inr v \<Rightarrow> 0 \<le> v"
      by (simp add: sizes_accepted_def list_all_iff)
    then show "\<exists>v. ?f x = Inr v \<and> 0 \<le> v" by (cases "?f x") simp_all
  qed
  from each have "\<forall>x \<in> set inplanes. \<exists>v. ?f x = Inr v" by blast
  from map_err_ok [OF this] obtain ws where ws: "map_err ?f inplanes = Inr ws" by blast
  have nn: "0 \<le> ws ! k" if "k < 4" for k
  proof -
    from that len have k: "k < length inplanes" by linarith
    with map_err_Inr [OF ws] have "?f (inplanes ! k) = Inr (ws ! k)" by simp
    moreover from k each obtain v where "?f (inplanes ! k) = Inr v" "0 \<le> v"
      using nth_mem by blast
    ultimately show ?thesis by simp
  qed
  have n4: "0 \<le> ws ! 0" "0 \<le> ws ! 1" "0 \<le> ws ! 2" "0 \<le> ws ! 3"
    using nn [of 0] nn [of 1] nn [of 2] nn [of 3] by simp_all
  note r = ResNet_init_ok [OF ws len n4 sz, of blk n0 n1 n2 n3 d]
  show ?thesis
    unfolding r
    by (rule exI, rule conjI, rule refl)
       (auto simp: stages_def stage_blocks_length list_all_iff dest: stage_blocks_kind)
qed

text \<open>
  C2. For every depth of 10, 18, 34, 50, 101, 152 and 200, on four base widths and
  sizes that the tensor library accepts, \<^verbatim>\<open>generate_model\<close> builds a network of exactly
  four stages whose block counts are those of the table, made of basic blocks up to
  depth 34 and of bottleneck blocks above. For every other depth the construction fails
  on the assertion. (A negative size fails the construction as well: with the base
  widths \<open>-4, 8, 16, 32\<close> it raises \<^verbatim>\<open>RuntimeError\<close>.)
\<close>

theorem generate_model_table:
  "(model_depth \<in> set [10, 18, 34, 50, 101, 152, 200] \<and> 4 \<le> length inplanes \<and>
    sizes_accepted inplanes kw \<longrightarrow>
      (\<exists>net. generate_model model_depth inplanes kw = Inr net \<and>
         length (stages net) = 4 \<and>
         map length (stages net) = spec_block_counts model_depth \<and>
         list_all (\<lambda>b. blk_kind b = spec_block_kind model_depth) (concat (stages net))))
   \<and> (model_depth \<notin> set [10, 18, 34, 50, 101, 152, 200] \<longrightarrow>
        generate_model model_depth inplanes kw = Inl AssertionError)
   \<and> generate_model 18 [- 4, 8, 16, 32] default_kwargs = Inl RuntimeError"
proof (intro conjI impI)
  assume "model_depth \<notin> set [10, 18, 34, 50, 101, 152, 200]"
  then show "generate_model model_depth inplanes kw = Inl AssertionError"
    by (simp add: generate_model_def)
next
  show "generate_model 18 [- 4, 8, 16, 32] default_kwargs = Inl RuntimeError"
    by (simp add: generate_model_def ResNet_init_def default_kwargs_def int_of_product_unit
        py_index_def nn_Conv3d_def tensor_def bind_err_def)
next
  assume a: "model_depth \<in> set [10, 18, 34, 50, 101, 152, 200] \<and> 4 \<le> length inplanes \<and>
    sizes_accepted inplanes kw"
  then have len: "4 \<le> length inplanes" and acc: "sizes_accepted inplanes kw" by simp_all
  have four: "length (stages net) = 4" for net by (simp add: stages_def)
  from a consider "model_depth = 10" | "model_depth = 18" | "model_depth = 34"
    | "model_depth = 50" | "model_depth = 101" | "model_depth = 152" | "model_depth = 200"
    by auto
  then show "\<exists>net. generate_model model_depth inplanes kw = Inr net \<and>
         length (stages net) = 4 \<and>
         map length (stages net) = spec_block_counts model_depth \<and>
         list_all (\<lambda>b. blk_kind b = spec_block_kind model_depth) (concat (stages net))"
  proof cases
    case 1
    with stages_of_init [OF len acc, of BasicBlock 1 1 1 1 model_depth] four show ?thesis
      by (simp add: generate_model_def spec_block_counts_def spec_block_kind_def eval_nat_numeral)
  next
    case 2
    with stages_of_init [OF len acc, of BasicBlock 2 2 2 2 model_depth] four show ?thesis
      by (simp add: generate_model_def spec_block_counts_def spec_block_kind_def eval_nat_numeral)
  next
    case 3
    with stages_of_init [OF len acc, of BasicBlock 3 4 6 3 model_depth] four show ?thesis
      by (simp add: generate_model_def spec_block_counts_def spec_block_kind_def eval_nat_numeral)
  next
    case 4
    with stages_of_init [OF len acc, of Bottleneck 3 4 6 3 model_depth] four show ?thesis
      by (simp add: generate_model_def spec_block_counts_def spec_block_kind_def eval_nat_numeral)
  next
    case 5
    with stages_of_init [OF len acc, of Bottleneck 3 4 23 3 model_depth] four show ?thesis
      by (simp add: generate_model_def spec_block_counts_def spec_block_kind_def eval_nat_numeral)
  next
    case 6
    with stages_of_init [OF len acc, of Bottleneck 3 8 36 3 model_depth] four show ?thesis
      by (simp add: generate_model_def spec_block_counts_def spec_block_kind_def eval_nat_numeral)
  next
    case 7
    with stages_of_init [OF len acc, of Bottleneck 3 24 36 3 model_depth] four show ?thesis
      by (simp add: generate_model_def spec_block_counts_def spec_block_kind_def eval_nat_numeral)
  qed
qed

theorem generate_model_table_witness:
  "(18::int) \<in> set [10, 18, 34, 50, 101, 152, 200]
   \<and> 4 \<le> length [64, 128, 256, 512 :: int]
   \<and> sizes_accepted [64, 128, 256, 512] default_kwargs
   \<and> (\<exists>net. generate_model 18 [64, 128, 256, 512] default_kwargs = Inr net \<and>
         length (stages net) = 4 \<and>
         map length (stages net) = [2, 2, 2, 2] \<and>
         list_all (\<lambda>b. blk_kind b = BasicBlock) (concat (stages net)))
   \<and> (7::int) \<notin> set [10, 18, 34, 50, 101, 152, 200]
   \<and> generate_model 7 [64, 128, 256, 512] default_kwargs = Inl AssertionError"
proof -
  have d: "(18::int) \<in> set [10, 18, 34, 50, 101, 152, 200]" by simp
  have l: "4 \<le> length [64, 128, 256, 512 :: int]" by simp
  have acc: "sizes_accepted [64, 128, 256, 512] default_kwargs"
    by (simp add: sizes_accepted_def default_kwargs_def int_of_product_unit)
  have n: "(7::int) \<notin> set [10, 18, 34, 50, 101, 152, 200]" by simp
  have c: "spec_block_counts 18 = [2, 2, 2, 2]" "spec_block_kind 18 = BasicBlock"
    by (simp_all add: spec_block_counts_def spec_block_kind_def)
  note t = generate_model_table [of 18 "[64, 128, 256, 512]" default_kwargs, unfolded c]
  note u = generate_model_table [of 7 "[64, 128, 256, 512]" default_kwargs]
  note a = t [THEN conjunct1, THEN mp, OF conjI [OF d conjI [OF l acc]]]
  note b = u [THEN conjunct2, THEN conjunct1, THEN mp, OF n]
  show ?thesis by (intro conjI d l acc a n b)
qed

subsection \<open>The mean loss of the evaluation routine (C3)\<close>

text \<open>
  C3 (the code departs from it). \<^verbatim>\<open>evaluate\<close> divides the summed batch losses by
  \<^verbatim>\<open>i + 1\<close>, where \<^verbatim>\<open>i\<close> is the last position of the last batch: the divisor is the
  size of the last batch, not the number of batches. On two batches of one example each
  the value returned is the sum of the two losses, not their half; on one batch of two
  examples it is half the loss of that batch.
\<close>

theorem evaluate_loss_divisor:
  "evaluate net [[(x1, 1)], [(x2, 0)]] criterion roc_auc_score =
     bind_err (roc_auc_score [1, 0] [net x1, net x2]) (\<lambda>auc.
       Inr ((real (corr_sum [net x1] [1]) + real (corr_sum [net x2] [0])) / 2,
            criterion [net x1] [1] + criterion [net x2] [0],
            auc))
   \<and> evaluate net [[(x1, 1), (x2, 0)]] criterion roc_auc_score =
     bind_err (roc_auc_score [1, 0] [net x1, net x2]) (\<lambda>auc.
       Inr (real (corr_sum [net x1, net x2] [1, 0]) / 2,
            criterion [net x1, net x2] [1, 0] / 2,
            auc))"
  by (simp add: evaluate_def eval_batch_def eval_init_def Let_def bind_err_def
      split: sum.splits)

subsection \<open>The sample fed to the model (C4)\<close>

lemma prepare_step_data:
  "prepare_step images (Inr (\<lambda>_. None, inp)) p = Inr (d, inp') \<Longrightarrow> d = (\<lambda>_. None)"
  by (auto simp: prepare_step_def bind_err_def split: option.splits sum.splits)

lemma prepare_fold_Inl:
  "foldl (prepare_step images) (Inl e) ps = Inl e"
  by (induction ps) (simp_all add: prepare_step_def bind_err_def)

lemma prepare_fold_data:
  "foldl (prepare_step images) (Inr (\<lambda>_. None, inp)) ps = Inr (d, inp') \<Longrightarrow>
     d = (\<lambda>_. None)"
proof (induction ps arbitrary: inp)
  case Nil
  then show ?case by simp
next
  case (Cons p ps)
  show ?case
  proof (cases "prepare_step images (Inr (\<lambda>_. None, inp)) p")
    case (Inl e)
    with Cons.prems show ?thesis by (simp add: prepare_fold_Inl)
  next
    case (Inr st)
    obtain d1 i1 where st: "st = (d1, i1)" by (cases st)
    from Inr st have "d1 = (\<lambda>_. None)" by (auto dest: prepare_step_data)
    with Cons.prems Inr st Cons.IH [of i1] show ?thesis by simp
  qed
qed

lemma loaded_field_fails:
  "CNNDataset_field (trial_dataset (loaded_images channels) ids) idx key \<noteq> Inr v"
  by (auto simp: CNNDataset_field_def trial_dataset_def CNNDataset_init_def bind_err_def
      loaded_images_def split: sum.splits option.splits)

text \<open>
  C4 (the code departs from it). The preparation loop computes the product of the two
  channels of each patient into the variable \<^verbatim>\<open>input\<close> and stores it nowhere: the
  dictionary \<^verbatim>\<open>data\<close> is empty after the loop. The dataset of a trial is built on the
  loaded channel pairs, and indexing it never returns a sample; for patient 7 with
  channels \<open>[2, 3]\<close> and \<open>[5, 7]\<close> the product \<open>[10, 21]\<close> is computed and dropped,
  and the access at position 0 raises \<^verbatim>\<open>TypeError\<close>.
\<close>

theorem product_not_fed_to_model:
  "(case prepare_data (loaded_images channels) patients_used of
      Inl e \<Rightarrow> True
    | Inr (data_dict, inp) \<Rightarrow> data_dict = (\<lambda>_. None))
   \<and> CNNDataset_getitem (trial_dataset (loaded_images channels) patients_used) idx
        \<noteq> Inr sample
   \<and> prepare_data (loaded_images one_patient) [7] = Inr (\<lambda>_. None, Some [10, 21])
   \<and> CNNDataset_getitem (trial_dataset (loaded_images one_patient) [7]) 0 = Inl TypeError"
proof (intro conjI)
  show "case prepare_data (loaded_images channels) patients_used of
      Inl e \<Rightarrow> True
    | Inr (data_dict, inp) \<Rightarrow> data_dict = (\<lambda>_. None)"
    unfolding prepare_data_def
    by (auto split: sum.splits dest: prepare_fold_data)
  show "CNNDataset_getitem (trial_dataset (loaded_images channels) patients_used) idx
        \<noteq> Inr sample"
    using loaded_field_fails [of channels patients_used idx "''input''"]
    by (auto simp: CNNDataset_getitem_def bind_err_def split: sum.splits)
  show "prepare_data (loaded_images one_patient) [7] = Inr (\<lambda>_. None, Some [10, 21])"
    by (simp add: prepare_data_def prepare_step_def bind_err_def loaded_images_def
        one_patient_def py_index_def np_multiply_def)
  show "CNNDataset_getitem (trial_dataset (loaded_images one_patient) [7]) 0 = Inl TypeError"
    by (simp add: CNNDataset_getitem_def CNNDataset_field_def trial_dataset_def
        CNNDataset_init_def bind_err_def loaded_images_def one_patient_def py_index_def)
qed

subsection \<open>Seeds of the trials (C5)\<close>

lemma trial_seeding_fixed:
  "trial_seeding stream g =
     \<lparr>seed_used = 1, seed_after = stream 1 0, gens_at_split = gens_seeded_1\<rparr>"
  by (simp add: trial_seeding_def random_seed_def randint_def gens_seeded_1_def Let_def)

text \<open>
  C5 (the code departs from it). Every trial passes the seed 1 to \<^verbatim>\<open>random_seed\<close>,
  whatever the generators yield and whatever the rest of a trial does to them: the
  integer drawn in a trial is left in the variable \<^verbatim>\<open>seed\<close> and overwritten by
  \<^verbatim>\<open>seed = 1\<close> at the head of the next trial. All trials draw the same integer and
  reach the dataset split with the generators in the same state.
\<close>

theorem every_trial_seeded_with_1:
  "run_trials stream rest num_trials g =
     replicate num_trials
       \<lparr>seed_used = 1, seed_after = stream 1 0, gens_at_split = gens_seeded_1\<rparr>"
proof (induction num_trials arbitrary: g)
  case 0
  show ?case by simp
next
  case (Suc n)
  show ?case by (simp add: Let_def trial_seeding_fixed Suc.IH)
qed

subsection \<open>The error rate of the evaluation routine (C6)\<close>

lemma sigmoid_pos: "0 < sigmoid x"
proof -
  have "0 < 1 + exp (- x)" by (simp add: add_pos_pos)
  then show ?thesis by (simp add: sigmoid_def)
qed

lemma thresholded_sigmoid: "map thresholded (map (\<lambda>x. sigmoid (f x)) xs) = replicate (length xs) 1"
  by (induction xs) (simp_all add: thresholded_def sigmoid_pos)

lemma mismatches_against_ones:
  "length (filter (\<lambda>(l, p). p \<noteq> l) (List.product labels (replicate n (1::int)))) =
     n * length (filter (\<lambda>l. l \<noteq> 1) labels)"
proof (induction labels)
  case Nil
  show ?case by simp
next
  case (Cons l ls)
  have "length (filter (\<lambda>(l', p). p \<noteq> l') (map (Pair l) (replicate n (1::int)))) =
          (if l \<noteq> 1 then n else 0)"
    by (induction n) auto
  with Cons show ?case by simp
qed

text \<open>
  C6 (the code departs from it). With a sigmoid as last activation every output is
  positive and every thresholded prediction is 1. The comparison of the predictions
  with the labels of a batch is a comparison of every prediction with every label, so a
  batch of \<open>B\<close> examples adds \<open>B\<close> times the number of its labels other than 1 to the
  error count. On one batch of two examples labelled 0 and 1 the error rate returned is
  1, where the fraction of examples labelled 0 is one half.
\<close>

theorem evaluate_error_rate_pairs:
  "corr_sum (map (\<lambda>x. sigmoid (f x)) xs) labels =
     length xs * length (filter (\<lambda>l. l \<noteq> 1) labels)
   \<and> evaluate (\<lambda>x. sigmoid (f x)) [[(x1, 0), (x2, 1)]] criterion roc_auc_score =
     bind_err (roc_auc_score [0, 1] [sigmoid (f x1), sigmoid (f x2)]) (\<lambda>auc.
       Inr (1, criterion [sigmoid (f x1), sigmoid (f x2)] [0, 1] / 2, auc))"
proof
  show c: "corr_sum (map (\<lambda>x. sigmoid (f x)) xs) labels =
     length xs * length (filter (\<lambda>l. l \<noteq> 1) labels)" for xs labels
    unfolding corr_sum_def thresholded_sigmoid by (rule mismatches_against_ones)
  have "corr_sum (map (\<lambda>x. sigmoid (f x)) [x1, x2]) [0, 1] = 2"
    unfolding c by simp
  then have two: "corr_sum [sigmoid (f x1), sigmoid (f x2)] [0, 1] = 2" by simp
  show "evaluate (\<lambda>x. sigmoid (f x)) [[(x1, 0), (x2, 1)]] criterion roc_auc_score =
     bind_err (roc_auc_score [0, 1] [sigmoid (f x1), sigmoid (f x2)]) (\<lambda>auc.
       Inr (1, criterion [sigmoid (f x1), sigmoid (f x2)] [0, 1] / 2, auc))"
    by (simp add: evaluate_def eval_batch_def eval_init_def Let_def bind_err_def two
        split: sum.splits)
qed

subsection \<open>Label derivation (C7)\<close>

lemma kept_rows_iff:
  "r \<in> set (kept_rows df_data exclusions) \<longleftrightarrow>
     r \<in> set df_data \<and> code r \<noteq> None \<and> the (code r) \<notin> set exclusions"
  by (auto simp: kept_rows_def)

text \<open>A dictionary filled entry by entry holds, under a key, what the last entry with that key stored.\<close>

lemma fill_source:
  "foldl (\<lambda>m x. m(k x := g x)) m0 xs c = m0 c \<or>
     (\<exists>x \<in> set xs. k x = c \<and> foldl (\<lambda>m x. m(k x := g x)) m0 xs c = g x)"
proof (induction xs rule: rev_induct)
  case Nil
  show ?case by simp
next
  case (snoc x xs)
  then show ?case by auto
qed

lemma fill_last:
  "x0 \<in> set xs \<Longrightarrow> k x0 = c \<Longrightarrow>
     \<exists>x \<in> set xs. k x = c \<and> foldl (\<lambda>m x. m(k x := g x)) m0 xs c = g x"
proof (induction xs rule: rev_induct)
  case Nil
  then show ?case by simp
next
  case (snoc x xs)
  show ?case
  proof (cases "k x = c")
    case True
    then show ?thesis by auto
  next
    case False
    with snoc.prems have "x0 \<in> set xs" by auto
    from snoc.IH [OF this snoc.prems(2)] False show ?thesis by auto
  qed
qed

lemma kept_code: "r \<in> set (kept_rows df_data exclusions) \<Longrightarrow> code r = Some (the (code r))"
  by (auto simp: kept_rows_iff)

lemma process_excel_Inr:
  assumes "process_excel on_empty df_data exclusions = Inr (feats, labels)"
      and "kept_rows df_data exclusions \<noteq> []"
  shows "labels =
           foldl (\<lambda>m x. m(py_int (the (code (fst x))) := snd x)) (\<lambda>_. None)
             (filter (\<lambda>x. snd x \<noteq> None)
                (map (\<lambda>r. (r, row_label r)) (kept_rows df_data exclusions)))"
    and "feats =
           foldl (\<lambda>m x. m(the (code (fst x)) := Some (features (fst x)))) (\<lambda>_. None)
             (filter (\<lambda>x. snd x \<noteq> None)
                (map (\<lambda>r. (r, row_label r)) (kept_rows df_data exclusions)))"
proof -
  let ?rows = "filter (\<lambda>(r, l). l \<noteq> None)
                 (map (\<lambda>r. (r, row_label r)) (kept_rows df_data exclusions))"
  have "process_excel on_empty df_data exclusions = Inl TypeError \<or>
        process_excel on_empty df_data exclusions =
          Inr (foldl (\<lambda>m (r, l). m(the (code r) \<mapsto> features r)) (\<lambda>_. None) ?rows,
               foldl (\<lambda>m (r, l). m(py_int (the (code r)) := l)) (\<lambda>_. None) ?rows)"
    unfolding process_excel_def Let_def using assms(2) by (simp only: if_False) metis
  with assms(1) have
    "feats = foldl (\<lambda>m (r, l). m(the (code r) \<mapsto> features r)) (\<lambda>_. None) ?rows"
    "labels = foldl (\<lambda>m (r, l). m(py_int (the (code r)) := l)) (\<lambda>_. None) ?rows"
    by auto
  then show "labels =
           foldl (\<lambda>m x. m(py_int (the (code (fst x))) := snd x)) (\<lambda>_. None)
             (filter (\<lambda>x. snd x \<noteq> None)
                (map (\<lambda>r. (r, row_label r)) (kept_rows df_data exclusions)))"
    and "feats =
           foldl (\<lambda>m x. m(the (code (fst x)) := Some (features (fst x)))) (\<lambda>_. None)
             (filter (\<lambda>x. snd x \<noteq> None)
                (map (\<lambda>r. (r, row_label r)) (kept_rows df_data exclusions)))"
    unfolding case_prod_beta by blast+
qed

lemma process_excel_empty:
  assumes "process_excel on_empty df_data exclusions = Inr (feats, labels)"
      and "kept_rows df_data exclusions = []"
  shows "labels = (\<lambda>_. None)" "feats = (\<lambda>_. None)"
  using assms by (auto simp: process_excel_def Let_def split: option.splits)

lemma labels_source:
  assumes pe: "process_excel on_empty df_data exclusions = Inr (feats, labels)"
      and l: "labels c = Some v"
  shows "\<exists>r \<in> set (kept_rows df_data exclusions).
           py_int (the (code r)) = c \<and> row_label r = Some v"
proof (cases "kept_rows df_data exclusions = []")
  case True
  from process_excel_empty(1) [OF pe True] l show ?thesis by simp
next
  case False
  note eq = process_excel_Inr(1) [OF pe False]
  from fill_source [of "\<lambda>x. py_int (the (code (fst x)))" snd "\<lambda>_. None"
      "filter (\<lambda>x. snd x \<noteq> None) (map (\<lambda>r. (r, row_label r)) (kept_rows df_data exclusions))" c]
    l show ?thesis unfolding eq [symmetric] by auto
qed

lemma feats_source:
  assumes pe: "process_excel on_empty df_data exclusions = Inr (feats, labels)"
      and f: "feats c = Some fv"
  shows "\<exists>r \<in> set (kept_rows df_data exclusions).
           code r = Some c \<and> row_label r \<noteq> None \<and> features r = fv"
proof (cases "kept_rows df_data exclusions = []")
  case True
  from process_excel_empty(2) [OF pe True] f show ?thesis by simp
next
  case False
  note eq = process_excel_Inr(2) [OF pe False]
  from fill_source [of "\<lambda>x. the (code (fst x))" "\<lambda>x. Some (features (fst x))" "\<lambda>_. None"
      "filter (\<lambda>x. snd x \<noteq> None) (map (\<lambda>r. (r, row_label r)) (kept_rows df_data exclusions))" c]
    f obtain r where r: "r \<in> set (kept_rows df_data exclusions)"
    and l: "row_label r \<noteq> None" and c: "the (code r) = c" and fv: "features r = fv"
    unfolding eq [symmetric] by auto
  from kept_code [OF r] c have "code r = Some c" by simp
  with r l fv show ?thesis by blast
qed

lemma labelled_row_kept:
  assumes pe: "process_excel on_empty df_data exclusions = Inr (feats, labels)"
      and r: "r \<in> set (kept_rows df_data exclusions)"
      and v: "row_label r = Some v"
  shows "\<exists>r' \<in> set (kept_rows df_data exclusions).
           py_int (the (code r')) = py_int (the (code r)) \<and> row_label r' \<noteq> None \<and>
           labels (py_int (the (code r))) = row_label r'"
    and "\<exists>r' \<in> set (kept_rows df_data exclusions).
           code r' = code r \<and> row_label r' \<noteq> None \<and>
           feats (the (code r)) = Some (features r')"
proof -
  from r have ne: "kept_rows df_data exclusions \<noteq> []" by auto
  let ?rows = "filter (\<lambda>x. snd x \<noteq> None)
                 (map (\<lambda>r. (r, row_label r)) (kept_rows df_data exclusions))"
  from r v have mem: "(r, Some v) \<in> set ?rows" by auto
  from fill_last [OF mem, of "\<lambda>x. py_int (the (code (fst x)))" "py_int (the (code r))"
      snd "\<lambda>_. None"]
  show "\<exists>r' \<in> set (kept_rows df_data exclusions).
           py_int (the (code r')) = py_int (the (code r)) \<and> row_label r' \<noteq> None \<and>
           labels (py_int (the (code r))) = row_label r'"
    unfolding process_excel_Inr(1) [OF pe ne, symmetric] by auto
  from fill_last [OF mem, of "\<lambda>x. the (code (fst x))" "the (code r)"
      "\<lambda>x. Some (features (fst x))" "\<lambda>_. None"]
  obtain r' where r': "r' \<in> set (kept_rows df_data exclusions)"
    and l: "row_label r' \<noteq> None" and c: "the (code r') = the (code r)"
    and fv: "feats (the (code r)) = Some (features r')"
    unfolding process_excel_Inr(2) [OF pe ne, symmetric] by auto
  from kept_code [OF r'] kept_code [OF r] c have "code r' = code r" by simp
  with r' l fv show "\<exists>r' \<in> set (kept_rows df_data exclusions).
           code r' = code r \<and> row_label r' \<noteq> None \<and>
           feats (the (code r)) = Some (features r')" by blast
qed

lemma process_excel_unlabelled:
  assumes "kept_rows df_data exclusions \<noteq> []"
      and "\<forall>r \<in> set (kept_rows df_data exclusions). row_label r = None"
  shows "process_excel on_empty df_data exclusions = Inl TypeError"
  using assms by (simp add: process_excel_def Let_def list_all_iff)

text \<open>
  C7. \<^verbatim>\<open>create_label\<close> gives label 1 when the mutation indicator is 1, whatever the
  fusion indicator (also when it is 1); label 0 when the mutation indicator is 0 and
  the fusion indicator is 1; no label when both are 0. When \<^verbatim>\<open>process_excel\<close> returns
  its two dictionaries, every entry comes from a row that has a code, is not excluded
  and has a label, so a row without a label is dropped; and every such row is kept: its
  code has an entry in both dictionaries, the entry of the last labelled row with that
  code, which is its own label when the labelled rows with that code agree. When there
  are rows left after the exclusions and none of them has a label, \<^verbatim>\<open>process_excel\<close>
  raises \<^verbatim>\<open>TypeError\<close>.
\<close>

theorem label_derivation:
  "create_label (Some 1) fusion = Some 1
   \<and> create_label (Some 1) (Some 1) = Some 1
   \<and> create_label (Some 0) (Some 1) = Some 0
   \<and> create_label (Some 0) (Some 0) = None
   \<and> (\<forall>r. r \<in> set (kept_rows df_data exclusions) \<longleftrightarrow>
          r \<in> set df_data \<and> code r \<noteq> None \<and> the (code r) \<notin> set exclusions)
   \<and> (process_excel on_empty df_data exclusions = Inr (feats, labels) \<longrightarrow>
        (\<forall>c v. labels c = Some v \<longrightarrow>
           (\<exists>r \<in> set (kept_rows df_data exclusions).
              py_int (the (code r)) = c \<and> row_label r = Some v))
      \<and> (\<forall>c fv. feats c = Some fv \<longrightarrow>
           (\<exists>r \<in> set (kept_rows df_data exclusions).
              code r = Some c \<and> row_label r \<noteq> None \<and> features r = fv))
      \<and> (\<forall>r \<in> set (kept_rows df_data exclusions). \<forall>v. row_label r = Some v \<longrightarrow>
           labels (py_int (the (code r))) \<noteq> None
         \<and> feats (the (code r)) \<noteq> None
         \<and> ((\<forall>r' \<in> set (kept_rows df_data exclusions).
                py_int (the (code r')) = py_int (the (code r)) \<and> row_label r' \<noteq> None \<longrightarrow>
                row_label r' = Some v) \<longrightarrow>
              labels (py_int (the (code r))) = Some v)
         \<and> ((\<forall>r' \<in> set (kept_rows df_data exclusions).
                code r' = code r \<and> row_label r' \<noteq> None \<longrightarrow> features r' = features r) \<longrightarrow>
              feats (the (code r)) = Some (features r))))
   \<and> (kept_rows df_data exclusions \<noteq> [] \<and>
        (\<forall>r \<in> set (kept_rows df_data exclusions). row_label r = None) \<longrightarrow>
        process_excel on_empty df_data exclusions = Inl TypeError)"
proof (intro conjI impI allI ballI)
  show "create_label (Some 1) fusion = Some 1" "create_label (Some 1) (Some 1) = Some 1"
    "create_label (Some 0) (Some 1) = Some 0" "create_label (Some 0) (Some 0) = None"
    by (simp_all add: create_label_def)
next
  fix r show "r \<in> set (kept_rows df_data exclusions) \<longleftrightarrow>
          r \<in> set df_data \<and> code r \<noteq> None \<and> the (code r) \<notin> set exclusions"
    by (rule kept_rows_iff)
next
  fix c v
  assume "process_excel on_empty df_data exclusions = Inr (feats, labels)" "labels c = Some v"
  then show "\<exists>r \<in> set (kept_rows df_data exclusions).
              py_int (the (code r)) = c \<and> row_label r = Some v"
    by (rule labels_source)
next
  fix c fv
  assume "process_excel on_empty df_data exclusions = Inr (feats, labels)" "feats c = Some fv"
  then show "\<exists>r \<in> set (kept_rows df_data exclusions).
              code r = Some c \<and> row_label r \<noteq> None \<and> features r = fv"
    by (rule feats_source)
next
  fix r v
  assume pe: "process_excel on_empty df_data exclusions = Inr (feats, labels)"
    and r: "r \<in> set (kept_rows df_data exclusions)" and v: "row_label r = Some v"
  from labelled_row_kept(1) [OF pe r v] show "labels (py_int (the (code r))) \<noteq> None"
    by auto
  from labelled_row_kept(2) [OF pe r v] show "feats (the (code r)) \<noteq> None"
    by auto
  {
    assume u: "\<forall>r' \<in> set (kept_rows df_data exclusions).
                py_int (the (code r')) = py_int (the (code r)) \<and> row_label r' \<noteq> None \<longrightarrow>
                row_label r' = Some v"
    from labelled_row_kept(1) [OF pe r v] u
    show "labels (py_int (the (code r))) = Some v" by auto
  }
  {
    assume u: "\<forall>r' \<in> set (kept_rows df_data exclusions).
                code r' = code r \<and> row_label r' \<noteq> None \<longrightarrow> features r' = features r"
    from labelled_row_kept(2) [OF pe r v] u
    show "feats (the (code r)) = Some (features r)" by auto
  }
next
  assume "kept_rows df_data exclusions \<noteq> [] \<and>
        (\<forall>r \<in> set (kept_rows df_data exclusions). row_label r = None)"
  then show "process_excel on_empty df_data exclusions = Inl TypeError"
    using process_excel_unlabelled by blast
qed

lemma sheet_rows:
  "kept_rows [row_a, row_b, row_c] [] = [row_a, row_b, row_c]"
  "kept_rows [row_a] [] = [row_a]"
  "row_label row_a = None" "row_label row_b = Some 1" "row_label row_c = Some 0"
  "py_int (the (code row_a)) = 5" "py_int (the (code row_b)) = 6"
  "py_int (the (code row_c)) = 8"
  "the (code row_a) = 5" "the (code row_b) = 6" "the (code row_c) = 8"
  "code row_a = Some 5" "code row_b = Some 6" "code row_c = Some 8"
  by (simp_all add: kept_rows_def row_label_def create_label_def row_a_def row_b_def
      row_c_def py_int_def)

lemma sheet_processed:
  "\<exists>feats labels. process_excel None [row_a, row_b, row_c] [] = Inr (feats, labels)"
  by (simp add: process_excel_def Let_def sheet_rows)

theorem label_derivation_witness:
  "(\<exists>feats labels.
      process_excel None [row_a, row_b, row_c] [] = Inr (feats, labels)
    \<and> labels 6 = Some 1 \<and> labels 8 = Some 0 \<and> labels 5 = None
    \<and> feats 6 = Some (features row_b) \<and> feats 8 = Some (features row_c) \<and> feats 5 = None)
   \<and> row_c \<in> set (kept_rows [row_a, row_b, row_c] [])
   \<and> row_label row_c = Some 0
   \<and> row_label row_a = None
   \<and> kept_rows [row_a] [] \<noteq> []
   \<and> list_all (\<lambda>r. row_label r = None) (kept_rows [row_a] [])
   \<and> process_excel None [row_a] [] = Inl TypeError"
proof -
  from sheet_processed obtain feats labels where
    pe: "process_excel None [row_a, row_b, row_c] [] = Inr (feats, labels)" by blast
  note t = label_derivation [where on_empty = None and df_data = "[row_a, row_b, row_c]"
      and exclusions = "[]" and feats = feats and labels = labels]
  note body = t [THEN conjunct2, THEN conjunct2, THEN conjunct2, THEN conjunct2,
      THEN conjunct2, THEN conjunct1, THEN mp, OF pe]
  note src = body [THEN conjunct1, rule_format]
  note fsrc = body [THEN conjunct2, THEN conjunct1, rule_format]
  note keep = body [THEN conjunct2, THEN conjunct2, rule_format]
  have mb: "row_b \<in> set (kept_rows [row_a, row_b, row_c] [])"
    and mc: "row_c \<in> set (kept_rows [row_a, row_b, row_c] [])"
    by (simp_all add: sheet_rows(1))
  have ne: "code row_a \<noteq> code row_b" "code row_a \<noteq> code row_c" "code row_b \<noteq> code row_c"
    by (simp_all add: row_a_def row_b_def row_c_def)
  have l6: "labels 6 = Some 1"
    using keep [OF mb sheet_rows(4), THEN conjunct2, THEN conjunct2, THEN conjunct1]
    by (simp add: sheet_rows py_int_def)
  have l8: "labels 8 = Some 0"
    using keep [OF mc sheet_rows(5), THEN conjunct2, THEN conjunct2, THEN conjunct1]
    by (simp add: sheet_rows py_int_def)
  have f6: "feats 6 = Some (features row_b)"
    using keep [OF mb sheet_rows(4), THEN conjunct2, THEN conjunct2, THEN conjunct2] ne
    by (simp add: sheet_rows py_int_def)
  have f8: "feats 8 = Some (features row_c)"
    using keep [OF mc sheet_rows(5), THEN conjunct2, THEN conjunct2, THEN conjunct2] ne
    by (simp add: sheet_rows py_int_def)
  have l5: "labels 5 = None"
  proof (cases "labels 5")
    case None
    then show ?thesis .
  next
    case (Some v)
    from src [OF Some] show ?thesis by (simp add: sheet_rows py_int_def)
  qed
  have f5: "feats 5 = None"
  proof (cases "feats 5")
    case None
    then show ?thesis .
  next
    case (Some fv)
    from fsrc [OF Some] have "\<exists>r \<in> set [row_a, row_b, row_c].
        code r = Some 5 \<and> row_label r \<noteq> None \<and> features r = fv"
      unfolding sheet_rows(1) .
    then show ?thesis by (simp add: sheet_rows)
  qed
  have e: "\<exists>feats labels.
      process_excel None [row_a, row_b, row_c] [] = Inr (feats, labels)
    \<and> labels 6 = Some 1 \<and> labels 8 = Some 0 \<and> labels 5 = None
    \<and> feats 6 = Some (features row_b) \<and> feats 8 = Some (features row_c) \<and> feats 5 = None"
    by (rule exI [of _ feats], rule exI [of _ labels]) (intro conjI pe l6 l8 l5 f6 f8 f5)
  note u = label_derivation [where on_empty = None and df_data = "[row_a]"
      and exclusions = "[]" and feats = feats and labels = labels]
  have k: "kept_rows [row_a] [] \<noteq> []" by (simp add: sheet_rows py_int_def)
  have a: "\<forall>r \<in> set (kept_rows [row_a] []). row_label r = None" by (simp add: sheet_rows py_int_def)
  note crash = u [THEN conjunct2, THEN conjunct2, THEN conjunct2, THEN conjunct2,
      THEN conjunct2, THEN conjunct2, THEN mp, OF conjI [OF k a]]
  have a': "list_all (\<lambda>r. row_label r = None) (kept_rows [row_a] [])"
    using a unfolding list_all_iff .
  show ?thesis
    by (intro conjI e mc sheet_rows(5) sheet_rows(3) k a' crash)
qed

subsection \<open>The dataset split (C8)\<close>

lemma split_sizes_bounds:
  assumes "split_sizes n = (a, b, c)"
  shows "a = \<lfloor>0.6 * real n\<rfloor>" "b = \<lfloor>0.2 * real n\<rfloor>" "c = int n - a - b"
        "0 \<le> a" "0 \<le> b" "a + b \<le> int n"
proof -
  from assms show a: "a = \<lfloor>0.6 * real n\<rfloor>" and b: "b = \<lfloor>0.2 * real n\<rfloor>"
    and "c = int n - a - b"
    by (auto simp: split_sizes_def Let_def py_int_def)
  show "0 \<le> a" "0 \<le> b" unfolding a b by simp_all
  have "real_of_int a \<le> 0.6 * real n" "real_of_int b \<le> 0.2 * real n"
    unfolding a b by (rule of_int_floor_le)+
  then have "real_of_int (a + b) \<le> real n" by simp
  then show "a + b \<le> int n" by linarith
qed

lemma distinct_append3:
  "distinct (xs @ ys @ zs) \<Longrightarrow>
     set xs \<inter> set ys = {} \<and> set xs \<inter> set zs = {} \<and> set ys \<inter> set zs = {}"
  by auto

text \<open>
  C8. For a list of \<open>N\<close> patients and whatever permutation of the positions the
  generator yields, the split returns three parts of \<open>\<lfloor>0.6 N\<rfloor>\<close>, \<open>\<lfloor>0.2 N\<rfloor>\<close> and
  \<open>N - \<lfloor>0.6 N\<rfloor> - \<lfloor>0.2 N\<rfloor>\<close> positions; the parts are pairwise disjoint, without
  repetition, and together they are all the positions, hence all the listed patients.
\<close>

theorem dataset_split_partition:
  assumes d: "distinct perm"
      and s: "set perm = {0 ..< CNNDataset_len dataset}"
  shows "\<exists>train val test.
           dataset_split perm dataset = Inr [train, val, test]
         \<and> int (length train) = \<lfloor>0.6 * real (CNNDataset_len dataset)\<rfloor>
         \<and> int (length val) = \<lfloor>0.2 * real (CNNDataset_len dataset)\<rfloor>
         \<and> int (length test) =
              int (CNNDataset_len dataset) - \<lfloor>0.6 * real (CNNDataset_len dataset)\<rfloor>
                - \<lfloor>0.2 * real (CNNDataset_len dataset)\<rfloor>
         \<and> set train \<inter> set val = {} \<and> set train \<inter> set test = {}
         \<and> set val \<inter> set test = {}
         \<and> distinct (train @ val @ test)
         \<and> set train \<union> set val \<union> set test = {0 ..< CNNDataset_len dataset}
         \<and> (!) (patient_ids dataset) ` (set train \<union> set val \<union> set test) =
              set (patient_ids dataset)"
proof -
  let ?n = "CNNDataset_len dataset"
  obtain a b c where sz: "split_sizes ?n = (a, b, c)" by (cases "split_sizes ?n") auto
  note f = split_sizes_bounds [OF sz]
  have len: "length perm = ?n"
    using distinct_card [OF d] s by simp
  let ?train = "take (nat a) perm"
  let ?val = "take (nat b) (drop (nat a) perm)"
  let ?test = "take (nat c) (drop (nat b) (drop (nat a) perm))"
  have sum: "sum_list [a, b, c] = int ?n" using f(3) by simp
  have res: "dataset_split perm dataset = Inr [?train, ?val, ?test]"
    using sum by (simp add: dataset_split_def sz random_split_def)
  have na: "nat a + nat b \<le> ?n" using f(4,5,6) by linarith
  have nc: "nat c = ?n - nat a - nat b" using f(3,4,5,6) by linarith
  have la: "int (length ?train) = a" using na len f(4) by simp
  have lb: "int (length ?val) = b" using na len f(5) by simp
  have c0: "0 \<le> c" using f(3,6) by linarith
  have "length ?test = nat c" using na nc len by (simp add: add.commute)
  with c0 have lc: "int (length ?test) = c" by simp
  have test: "?test = drop (nat b) (drop (nat a) perm)"
    using nc len by (simp add: add.commute)
  have app: "?train @ ?val @ ?test = perm"
    unfolding test by (simp only: append_take_drop_id)
  have dis: "distinct (?train @ ?val @ ?test)" unfolding app by (rule d)
  have cover: "set ?train \<union> set ?val \<union> set ?test = {0 ..< ?n}"
  proof -
    have "set ?train \<union> set ?val \<union> set ?test = set (?train @ ?val @ ?test)" by auto
    then show ?thesis unfolding app s .
  qed
  have pats: "(!) (patient_ids dataset) ` (set ?train \<union> set ?val \<union> set ?test) =
              set (patient_ids dataset)"
    unfolding cover using nth_image [of "length (patient_ids dataset)" "patient_ids dataset"]
    by (simp add: CNNDataset_len_def)
  from distinct_append3 [OF dis]
  have inter: "set ?train \<inter> set ?val = {}" "set ?train \<inter> set ?test = {}"
    "set ?val \<inter> set ?test = {}" by blast+
  have ta: "int (length ?train) = \<lfloor>0.6 * real ?n\<rfloor>"
    using la f(1) by (rule trans)
  have tb: "int (length ?val) = \<lfloor>0.2 * real ?n\<rfloor>"
    using lb f(2) by (rule trans)
  have tc: "int (length ?test) =
      int ?n - \<lfloor>0.6 * real ?n\<rfloor> - \<lfloor>0.2 * real ?n\<rfloor>"
    unfolding lc f(1) [symmetric] f(2) [symmetric] by (rule f(3))
  show ?thesis
    by (rule exI [of _ ?train], rule exI [of _ ?val], rule exI [of _ ?test])
       (intro conjI res ta tb tc inter dis cover pats)
qed

theorem dataset_split_partition_witness:
  "distinct [3, 1, 4, 0, 2 :: nat]
   \<and> set [3, 1, 4, 0, 2] = {0 ..< CNNDataset_len five_patients}
   \<and> (\<exists>train val test.
           dataset_split [3, 1, 4, 0, 2] five_patients = Inr [train, val, test]
         \<and> int (length train) = 3 \<and> int (length val) = 1 \<and> int (length test) = 1
         \<and> set train \<inter> set val = {} \<and> set train \<inter> set test = {}
         \<and> set val \<inter> set test = {}
         \<and> distinct (train @ val @ test)
         \<and> set train \<union> set val \<union> set test = {0 ..< 5}
         \<and> (!) [11, 12, 13, 14, 15 :: int] ` (set train \<union> set val \<union> set test) =
              set [11, 12, 13, 14, 15])"
proof -
  have n: "CNNDataset_len five_patients = 5"
    by (simp add: five_patients_def CNNDataset_len_def CNNDataset_init_def)
  have ids: "patient_ids five_patients = [11, 12, 13, 14, 15]"
    by (simp add: five_patients_def CNNDataset_init_def)
  have d: "distinct [3, 1, 4, 0, 2 :: nat]" by simp
  have s: "set [3, 1, 4, 0, 2] = {0 ..< CNNDataset_len five_patients}"
    unfolding n by (auto simp: eval_nat_numeral atLeastLessThanSuc)
  have fl: "\<lfloor>0.6 * real 5\<rfloor> = 3" "\<lfloor>0.2 * real 5\<rfloor> = 1" by simp_all
  have ar: "int 5 - 3 - 1 = 1" by simp
  note t = dataset_split_partition [OF d s, unfolded n ids fl ar]
  show ?thesis by (intro conjI d s t)
qed

subsection \<open>Stage construction (C9)\<close>














subsection \<open>The dataset adapter (C10)\<close>

text \<open>
  C10. The length of a \<^verbatim>\<open>CNNDataset\<close> is the number of listed patient ids. Indexing at
  a position \<open>i\<close> of the list returns the pair of the \<^verbatim>\<open>input\<close> and \<^verbatim>\<open>label\<close>
  fields stored for the patient at that position, and raises \<^verbatim>\<open>KeyError\<close> when that
  patient is absent from the data mapping; nothing but the lookups happens.
\<close>

theorem dataset_adapter:
  "CNNDataset_len (CNNDataset_init d ids) = length ids
   \<and> (0 \<le> i \<and> i < int (length ids) \<and> d (ids ! nat i) = Some (PyDict m) \<and>
        m ''input'' = Some x \<and> m ''label'' = Some y \<longrightarrow>
        CNNDataset_getitem (CNNDataset_init d ids) i = Inr (x, y))
   \<and> (0 \<le> i \<and> i < int (length ids) \<and> d (ids ! nat i) = None \<longrightarrow>
        CNNDataset_getitem (CNNDataset_init d ids) i = Inl KeyError)"
  by (simp add: CNNDataset_len_def CNNDataset_init_def CNNDataset_getitem_def
      CNNDataset_field_def bind_err_def py_index_in_range)

theorem dataset_adapter_witness:
  "CNNDataset_len (CNNDataset_init sample_data [7, 9]) = 2
   \<and> CNNDataset_getitem (CNNDataset_init sample_data [7, 9]) 0 = Inr ([2, 3], [1])
   \<and> CNNDataset_getitem (CNNDataset_init sample_data [7, 9]) 1 = Inl KeyError"
proof -
  let ?m = "(\<lambda>_. None)(''input'' \<mapsto> [2, 3::real], ''label'' \<mapsto> [1])"
  have a: "sample_data ([7, 9] ! nat 0) = Some (PyDict ?m)"
    by (simp add: sample_data_def sample_entry_def)
  have b: "sample_data ([7, 9] ! nat 1) = None"
    by (simp add: sample_data_def)
  have m: "?m ''input'' = Some [2, 3]" "?m ''label'' = Some [1]"
    by simp_all
  from dataset_adapter [of sample_data "[7, 9]" 0 ?m "[2, 3]" "[1]"] a m
  have 1: "CNNDataset_len (CNNDataset_init sample_data [7, 9]) = length [7, 9::int]"
    and 2: "CNNDataset_getitem (CNNDataset_init sample_data [7, 9]) 0 = Inr ([2, 3], [1])"
    by simp_all
  from dataset_adapter [of sample_data "[7, 9]" 1 ?m "[2, 3]" "[1]"] b
  have 3: "CNNDataset_getitem (CNNDataset_init sample_data [7, 9]) 1 = Inl KeyError"
    by simp
  from 1 2 3 show ?thesis by simp
qed

end
